theory Spec2Isabelle
  imports Complex_Main
begin

section \<open>Python values used by \<open>app/crud/nlp_crud.py\<close>\<close>

text \<open>
  A Python \<open>str\<close> is a sequence of Unicode code points: \<open>len\<close>, indexing, slicing
  and \<open>find\<close> count code points. The sentences of this program are Devanagari, so a
  string is a list of code points (integers), and an ASCII literal of the source is
  written \<open>ustr ''...''\<close>.
\<close>

type_synonym codepoint = int
type_synonym ustring = "codepoint list"

definition ustr :: "string \<Rightarrow> ustring" where
  "ustr s = map of_char s"

text \<open>The exceptions the modelled functions can leave with.\<close>

datatype error =
    NotAvailableException
  | TypeException
  | UnboundLocalError
  | TypeError
  | KeyError
  | NameError
  | ZeroDivisionError
  | IndexError
  | ValueError
  | ReError

text \<open>
  Python's slice \<open>xs[lo:hi]\<close> on integers: a negative bound counts from the end, and
  both bounds are clamped to \<open>[0, len]\<close>; an absent bound is \<open>None\<close>.
\<close>

definition slice_index :: "nat \<Rightarrow> int \<Rightarrow> nat" where
  "slice_index n i = (if i < 0 then nat (max 0 (int n + i)) else min n (nat i))"

definition py_slice :: "'a list \<Rightarrow> int option \<Rightarrow> int option \<Rightarrow> 'a list" where
  "py_slice xs lo hi =
     (let n = length xs;
          a = (case lo of None \<Rightarrow> 0 | Some i \<Rightarrow> slice_index n i);
          b = (case hi of None \<Rightarrow> n | Some j \<Rightarrow> slice_index n j)
      in take (b - a) (drop a xs))"

abbreviation slice :: "'a list \<Rightarrow> int \<Rightarrow> int \<Rightarrow> 'a list" where
  "slice xs i j \<equiv> py_slice xs (Some i) (Some j)"


section \<open>Token replacement: \<open>replace_token\<close>\<close>

text \<open>
  A draft-meta entry is \<open>((srcStart, srcEnd), (dstStart, dstEnd), status)\<close>; the status is
  a Python string compared with \<open>==\<close>.
\<close>

type_synonym offset = "int \<times> int"
type_synonym segment = "offset \<times> offset \<times> ustring"

definition src_range :: "segment \<Rightarrow> offset" where
  "src_range g = fst g"

definition dst_range :: "segment \<Rightarrow> offset" where
  "dst_range g = fst (snd g)"

definition status :: "segment \<Rightarrow> ustring" where
  "status g = snd (snd g)"

definition untranslated :: ustring where
  "untranslated = ustr ''untranslated''"

definition suggestion :: ustring where
  "suggestion = ustr ''suggestion''"

definition confirmed :: ustring where
  "confirmed = ustr ''confirmed''"

text \<open>
  \<open>len(set(range(s, e)).intersection(range(a, b))) > 0\<close>: some integer lies in both
  half-open ranges.
\<close>

definition intersects :: "offset \<Rightarrow> offset \<Rightarrow> bool" where
  "intersects tok seg = (max (fst tok) (fst seg) < min (snd tok) (snd seg))"

text \<open>
  The source appends \<open>(token_offset, translation_offset, tag)\<close> to \<open>updated_meta\<close>, where
  \<open>translation_offset\<close> is the one two-element list of the call: every later assignment
  to one of its cells is seen through the entries already appended. \<open>Shared\<close> marks
  such an entry, and the two writes below update the cell and every \<open>Shared\<close> entry.
\<close>

datatype meta_entry = Own segment | Shared offset offset ustring

record rt_state =
  updated_draft :: ustring
  updated_meta :: "meta_entry list"
  translation_offset :: "int option \<times> int option"
  offset_diff :: "int option"

fun write_cell0 :: "int \<Rightarrow> meta_entry \<Rightarrow> meta_entry" where
  "write_cell0 v (Own g) = Own g"
| "write_cell0 v (Shared tok d tag) = Shared tok (v, snd d) tag"

fun write_cell1 :: "int \<Rightarrow> meta_entry \<Rightarrow> meta_entry" where
  "write_cell1 v (Own g) = Own g"
| "write_cell1 v (Shared tok d tag) = Shared tok (fst d, v) tag"

definition set_translation_offset0 :: "int \<Rightarrow> rt_state \<Rightarrow> rt_state" where
  "set_translation_offset0 v st =
     st\<lparr>translation_offset := (Some v, snd (translation_offset st)),
        updated_meta := map (write_cell0 v) (updated_meta st)\<rparr>"

definition set_translation_offset1 :: "int \<Rightarrow> rt_state \<Rightarrow> rt_state" where
  "set_translation_offset1 v st =
     st\<lparr>translation_offset := (fst (translation_offset st), Some v),
        updated_meta := map (write_cell1 v) (updated_meta st)\<rparr>"

definition add_draft :: "ustring \<Rightarrow> rt_state \<Rightarrow> rt_state" where
  "add_draft txt st = st\<lparr>updated_draft := updated_draft st @ txt\<rparr>"

definition add_meta :: "meta_entry \<Rightarrow> rt_state \<Rightarrow> rt_state" where
  "add_meta m st = st\<lparr>updated_meta := updated_meta st @ [m]\<rparr>"

fun entry_segment :: "meta_entry \<Rightarrow> segment" where
  "entry_segment (Own g) = g"
| "entry_segment (Shared tok d tag) = (tok, d, tag)"

text \<open>
  The first \<open>if\<close> chain of an intersecting segment (where the token begins). \<open>a\<close> and
  \<open>c\<close> are the starts of the segment's source and draft ranges.
\<close>

definition begin_part :: "ustring \<Rightarrow> offset \<Rightarrow> ustring \<Rightarrow> segment \<Rightarrow> rt_state \<Rightarrow> rt_state" where
  "begin_part source token_offset translation g st =
     (let a = fst (src_range g); c = fst (dst_range g); s = fst token_offset in
      if s = a then
        add_draft translation (set_translation_offset0 c st)
      else if s > a then
        (let st1 = add_draft (slice source a s) st;
             new_seg_len = s - a;
             st2 = add_meta (Own ((a, s), (c, c + new_seg_len), untranslated)) st1;
             st3 = set_translation_offset0 (c + new_seg_len) st2
         in add_draft translation st3)
      else st)"

text \<open>
  The second \<open>if\<close> chain (where the token ends). \<open>translation_offset[0] + trans_length\<close>
  is a \<open>TypeError\<close> while the first cell is still \<open>None\<close>.
\<close>

definition end_part ::
  "ustring \<Rightarrow> offset \<Rightarrow> ustring \<Rightarrow> ustring \<Rightarrow> segment \<Rightarrow> rt_state \<Rightarrow> error + rt_state" where
  "end_part source token_offset translation tag g st =
     (let b = snd (src_range g); d = snd (dst_range g); e = snd token_offset;
          trans_length = int (length translation) in
      if e = b then
        (case fst (translation_offset st) of
           None \<Rightarrow> Inl TypeError
         | Some t0 \<Rightarrow>
             (let st1 = set_translation_offset1 (t0 + trans_length) st;
                  st2 = add_meta (Shared token_offset (t0, t0 + trans_length) tag) st1
              in Inr (st2\<lparr>offset_diff := Some (t0 + trans_length - d)\<rparr>)))
      else if e < b then
        (case fst (translation_offset st) of
           None \<Rightarrow> Inl TypeError
         | Some t0 \<Rightarrow>
             (let trailing_seg = slice source e b;
                  t1 = t0 + trans_length;
                  st1 = set_translation_offset1 t1 st;
                  st2 = add_meta (Shared token_offset (t0, t1) tag) st1;
                  st3 = add_draft trailing_seg st2;
                  st4 = add_meta (Own ((e, b), (t1, t1 + int (length trailing_seg)),
                                  untranslated)) st3
              in Inr (st4\<lparr>offset_diff := Some (t1 + int (length trailing_seg) - d)\<rparr>)))
      else Inr st)"

text \<open>
  One iteration of \<open>for meta in draft_meta\<close>. \<open>draft\<close> is \<open>None\<close> when the sentence has
  no draft yet; subscripting it is a \<open>TypeError\<close>. Reading \<open>offset_diff\<close> before any
  intersecting segment assigned it is an \<open>UnboundLocalError\<close>.
\<close>

definition replace_step ::
  "ustring \<Rightarrow> offset \<Rightarrow> ustring \<Rightarrow> ustring option \<Rightarrow> ustring \<Rightarrow> segment \<Rightarrow> rt_state
     \<Rightarrow> error + rt_state" where
  "replace_step source token_offset translation draft tag g st =
     (let tkn_offset = src_range g; trans_offset = dst_range g in
      if intersects token_offset tkn_offset then
        end_part source token_offset translation tag g
          (begin_part source token_offset translation g st)
      else if snd tkn_offset < snd token_offset then
        (case draft of
           None \<Rightarrow> Inl TypeError
         | Some dr \<Rightarrow>
             Inr (add_meta (Own g)
                   (add_draft (slice dr (fst trans_offset) (snd trans_offset)) st)))
      else
        (case draft of
           None \<Rightarrow> Inl TypeError
         | Some dr \<Rightarrow>
             (let st1 = add_draft (slice dr (fst trans_offset) (snd trans_offset)) st in
              case offset_diff st1 of
                None \<Rightarrow> Inl UnboundLocalError
              | Some od \<Rightarrow>
                  Inr (add_meta (Own (tkn_offset,
                         (fst trans_offset + od, snd trans_offset + od), status g)) st1))))"

fun replace_loop ::
  "ustring \<Rightarrow> offset \<Rightarrow> ustring \<Rightarrow> ustring option \<Rightarrow> ustring \<Rightarrow> segment list \<Rightarrow> rt_state
     \<Rightarrow> error + rt_state" where
  "replace_loop source token_offset translation draft tag [] st = Inr st"
| "replace_loop source token_offset translation draft tag (g # gs) st =
     (case replace_step source token_offset translation draft tag g st of
        Inl err \<Rightarrow> Inl err
      | Inr st' \<Rightarrow> replace_loop source token_offset translation draft tag gs st')"

definition rt_init :: rt_state where
  "rt_init = \<lparr>updated_draft = [], updated_meta = [],
              translation_offset = (None, None), offset_diff = None\<rparr>"

text \<open>
  \<open>replace_token(source, token_offset, translation, draft, draft_meta, tag)\<close>. An absent
  or empty \<open>draft_meta\<close> stands for the fresh sentence: the draft is the source, under
  one untranslated segment.
\<close>

definition replace_token ::
  "ustring \<Rightarrow> offset \<Rightarrow> ustring \<Rightarrow> ustring option \<Rightarrow> segment list option \<Rightarrow> ustring
     \<Rightarrow> error + (ustring \<times> segment list)" where
  "replace_token source token_offset translation draft draft_meta tag =
     (let n = int (length source);
          fresh = (Some source, [((0, n), (0, n), untranslated)]);
          (draft', draft_meta') =
             (case draft_meta of
                None \<Rightarrow> fresh
              | Some m \<Rightarrow> if length m = 0 then fresh else (draft, m))
      in case replace_loop source token_offset translation draft' tag draft_meta' rt_init of
           Inl err \<Rightarrow> Inl err
         | Inr st \<Rightarrow> Inr (updated_draft st, map entry_segment (updated_meta st)))"

text \<open>
  The draft slice of a segment, \<open>draft[trans_offset[0]: trans_offset[1]]\<close>, and the
  invariant of a draft-meta: the segments follow one another without gap or overlap, on
  the source side from \<open>0\<close> to \<open>len(source)\<close> and on the draft side from \<open>0\<close> to
  \<open>len(draft)\<close>.
\<close>

definition dst_slice :: "ustring \<Rightarrow> segment \<Rightarrow> ustring" where
  "dst_slice draft g = slice draft (fst (dst_range g)) (snd (dst_range g))"

fun contiguous :: "int \<Rightarrow> int \<Rightarrow> segment list \<Rightarrow> int \<Rightarrow> int \<Rightarrow> bool" where
  "contiguous s0 d0 [] s1 d1 = (s0 = s1 \<and> d0 = d1)"
| "contiguous s0 d0 (g # gs) s1 d1 =
     (fst (src_range g) = s0 \<and> fst (dst_range g) = d0 \<and>
      s0 \<le> snd (src_range g) \<and> d0 \<le> snd (dst_range g) \<and>
      contiguous (snd (src_range g)) (snd (dst_range g)) gs s1 d1)"

definition segmentation :: "segment list \<Rightarrow> ustring \<Rightarrow> ustring \<Rightarrow> bool" where
  "segmentation meta source draft =
     contiguous 0 0 meta (int (length source)) (int (length draft))"

text \<open>A non-empty token offset that lies within the source range of a segment.\<close>

definition token_inside :: "offset \<Rightarrow> segment \<Rightarrow> bool" where
  "token_inside tok g =
     (fst (src_range g) \<le> fst tok \<and> fst tok < snd tok \<and> snd tok \<le> snd (src_range g))"


section \<open>Python string operations\<close>

text \<open>
  The code points \<open>str.split()\<close>, \<open>str.strip()\<close> and the pattern \<open>\s\<close> take for white
  space.
\<close>

definition is_space :: "codepoint \<Rightarrow> bool" where
  "is_space c =
     (c \<in> set [9, 10, 11, 12, 13, 28, 29, 30, 31, 32, 133, 160, 5760, 8232, 8233, 8239,
               8287, 12288]
      \<or> (8192 \<le> c \<and> c \<le> 8202))"

definition SPACE :: codepoint where
  "SPACE = 32"

definition SLASH :: codepoint where
  "SLASH = 47"

text \<open>\<open>s.split()\<close>: the maximal runs of characters that are not white space.\<close>

fun split_ws :: "ustring \<Rightarrow> ustring \<Rightarrow> ustring list" where
  "split_ws cur [] = (if cur = [] then [] else [cur])"
| "split_ws cur (c # cs) =
     (if is_space c then (if cur = [] then split_ws [] cs else cur # split_ws [] cs)
      else split_ws (cur @ [c]) cs)"

definition py_split :: "ustring \<Rightarrow> ustring list" where
  "py_split s = split_ws [] s"

definition py_strip :: "ustring \<Rightarrow> ustring" where
  "py_strip s = rev (dropWhile is_space (rev (dropWhile is_space s)))"

text \<open>\<open>s.split(sep)\<close> with a one-character separator.\<close>

fun split_on :: "codepoint \<Rightarrow> ustring \<Rightarrow> ustring \<Rightarrow> ustring list" where
  "split_on sep cur [] = [cur]"
| "split_on sep cur (c # cs) =
     (if c = sep then cur # split_on sep [] cs else split_on sep (cur @ [c]) cs)"

text \<open>\<open>sep.join(words)\<close>.\<close>

fun join :: "ustring \<Rightarrow> ustring list \<Rightarrow> ustring" where
  "join sep [] = []"
| "join sep [w] = w"
| "join sep (w # ws) = w @ sep @ join sep ws"

text \<open>
  \<open>re.split('[...]+', text)\<close> for a character class \<open>P\<close>: the text is cut at every
  maximal run of matching characters (\<open>in_match\<close> is true inside a run). A match at the
  start or the end leaves an empty piece there.
\<close>

fun re_split_class :: "(codepoint \<Rightarrow> bool) \<Rightarrow> bool \<Rightarrow> ustring \<Rightarrow> ustring \<Rightarrow> ustring list" where
  "re_split_class P in_match cur [] = [cur]"
| "re_split_class P in_match cur (c # cs) =
     (if P c then
        (if in_match then re_split_class P True cur cs
         else cur # re_split_class P True [] cs)
      else re_split_class P False (cur @ [c]) cs)"

text \<open>\<open>re.sub('[...]+', rep, text)\<close>: every maximal run of matching characters becomes \<open>rep\<close>.\<close>

fun re_sub_runs :: "(codepoint \<Rightarrow> bool) \<Rightarrow> ustring \<Rightarrow> bool \<Rightarrow> ustring \<Rightarrow> ustring" where
  "re_sub_runs P rep in_match [] = []"
| "re_sub_runs P rep in_match (c # cs) =
     (if P c then
        (if in_match then re_sub_runs P rep True cs else rep @ re_sub_runs P rep True cs)
      else c # re_sub_runs P rep False cs)"

text \<open>
  \<open>s.find(sub, start)\<close> for \<open>start \<ge> 0\<close>: the least index from \<open>start\<close> on at which
  \<open>sub\<close> occurs in \<open>s\<close>, or \<open>-1\<close>.
\<close>

fun find_in :: "ustring \<Rightarrow> ustring \<Rightarrow> nat \<Rightarrow> int" where
  "find_in sub [] i = (if sub = [] then int i else - 1)"
| "find_in sub (c # cs) i =
     (if take (length sub) (c # cs) = sub then int i else find_in sub cs (Suc i))"

definition py_find :: "ustring \<Rightarrow> ustring \<Rightarrow> nat \<Rightarrow> int" where
  "py_find s sub start = (if start > length s then - 1 else find_in sub (drop start s) start)"

text \<open>
  \<open>s.replace(old, new)\<close>: every occurrence of \<open>old\<close>, from the left and without overlap
  (\<open>skip\<close> counts the characters of a match still to pass).
\<close>

fun replace_skip :: "ustring \<Rightarrow> ustring \<Rightarrow> nat \<Rightarrow> ustring \<Rightarrow> ustring" where
  "replace_skip old new skip [] = []"
| "replace_skip old new skip (c # cs) =
     (if skip > 0 then replace_skip old new (skip - 1) cs
      else if take (length old) (c # cs) = old then new @ replace_skip old new (length old - 1) cs
      else c # replace_skip old new 0 cs)"

definition py_replace :: "ustring \<Rightarrow> ustring \<Rightarrow> ustring \<Rightarrow> ustring" where
  "py_replace old new s =
     (if old = [] then new @ concat (map (\<lambda>c. c # new) s) else replace_skip old new 0 s)"

definition startswith :: "ustring \<Rightarrow> ustring \<Rightarrow> bool" where
  "startswith s pre = (take (length pre) s = pre)"


section \<open>The prefix tree of \<open>pygtrie.StringTrie\<close>\<close>

text \<open>
  Modelled from the spec: the type \<open>pygtrie.StringTrie\<close>, a third-party package that is
  not among the sources (spec sections 4.1, 4.5 and 4.6, and the documented behaviour of the
  package). A key is cut at \<open>/\<close> into the steps of a path; a node holds an optional
  value and its children in insertion order; \<open>values(prefix)\<close> and \<open>items()\<close> list
  what is at and below a node in pre-order.
\<close>

datatype 'v trie = Node (node_value: "'v option") (node_children: "(ustring \<times> 'v trie) list")

definition empty_trie :: "'v trie" where
  "empty_trie = Node None []"

definition path_from_key :: "ustring \<Rightarrow> ustring list" where
  "path_from_key key = split_on SLASH [] key"

definition key_from_path :: "ustring list \<Rightarrow> ustring" where
  "key_from_path path = join [SLASH] path"

fun trie_node :: "ustring list \<Rightarrow> 'v trie \<Rightarrow> 'v trie option" where
  "trie_node [] t = Some t"
| "trie_node (k # ks) t =
     (case map_of (node_children t) k of None \<Rightarrow> None | Some c \<Rightarrow> trie_node ks c)"

fun set_child :: "ustring \<Rightarrow> ('v trie \<Rightarrow> 'v trie) \<Rightarrow> (ustring \<times> 'v trie) list
    \<Rightarrow> (ustring \<times> 'v trie) list" where
  "set_child k f [] = [(k, f (Node None []))]"
| "set_child k f ((k', c) # cs) =
     (if k = k' then (k', f c) # cs else (k', c) # set_child k f cs)"

fun trie_set :: "ustring list \<Rightarrow> 'v \<Rightarrow> 'v trie \<Rightarrow> 'v trie" where
  "trie_set [] v t = Node (Some v) (node_children t)"
| "trie_set (k # ks) v t = Node (node_value t) (set_child k (trie_set ks v) (node_children t))"

fun trie_values :: "'v trie \<Rightarrow> 'v list" where
  "trie_values (Node x cs) =
     (case x of None \<Rightarrow> [] | Some v \<Rightarrow> [v]) @ concat (map (\<lambda>kc. trie_values (snd kc)) cs)"

fun trie_items_from :: "ustring list \<Rightarrow> 'v trie \<Rightarrow> (ustring \<times> 'v) list" where
  "trie_items_from path (Node x cs) =
     (case x of None \<Rightarrow> [] | Some v \<Rightarrow> [(key_from_path path, v)]) @
     concat (map (\<lambda>kc. trie_items_from (path @ [fst kc]) (snd kc)) cs)"

definition trie_items :: "'v trie \<Rightarrow> (ustring \<times> 'v) list" where
  "trie_items t = trie_items_from [] t"

text \<open>\<open>t[key] = v\<close>, \<open>t[key]\<close>, \<open>t.has_key(key)\<close>, \<open>t.has_subtrie(key)\<close>, \<open>t.values(key)\<close>.\<close>

definition setitem :: "ustring \<Rightarrow> 'v \<Rightarrow> 'v trie \<Rightarrow> 'v trie" where
  "setitem key v t = trie_set (path_from_key key) v t"

definition getitem :: "ustring \<Rightarrow> 'v trie \<Rightarrow> error + 'v" where
  "getitem key t =
     (case trie_node (path_from_key key) t of
        None \<Rightarrow> Inl KeyError
      | Some n \<Rightarrow> (case node_value n of None \<Rightarrow> Inl KeyError | Some v \<Rightarrow> Inr v))"

definition has_key :: "ustring \<Rightarrow> 'v trie \<Rightarrow> bool" where
  "has_key key t =
     (case trie_node (path_from_key key) t of
        None \<Rightarrow> False
      | Some n \<Rightarrow> node_value n \<noteq> None)"

definition has_subtrie :: "ustring \<Rightarrow> 'v trie \<Rightarrow> bool" where
  "has_subtrie key t =
     (case trie_node (path_from_key key) t of
        None \<Rightarrow> False
      | Some n \<Rightarrow> node_children n \<noteq> [])"

definition trie_values_at :: "ustring \<Rightarrow> 'v trie \<Rightarrow> error + 'v list" where
  "trie_values_at key t =
     (case trie_node (path_from_key key) t of
        None \<Rightarrow> Inl KeyError
      | Some n \<Rightarrow> Inr (trie_values n))"

text \<open>
  \<open>t.longest_prefix(key).key\<close>: the longest prefix of the key's path that holds a value,
  as a key, or \<open>None\<close> when no prefix holds one.
\<close>

fun longest_walk :: "ustring list \<Rightarrow> 'v trie \<Rightarrow> ustring list \<Rightarrow> ustring list option
    \<Rightarrow> ustring list option" where
  "longest_walk [] t walked best = (if node_value t \<noteq> None then Some walked else best)"
| "longest_walk (k # ks) t walked best =
     (let best' = (if node_value t \<noteq> None then Some walked else best) in
      case map_of (node_children t) k of
        None \<Rightarrow> best'
      | Some c \<Rightarrow> longest_walk ks c (walked @ [k]) best')"

definition longest_prefix :: "ustring \<Rightarrow> 'v trie \<Rightarrow> ustring option" where
  "longest_prefix key t =
     map_option key_from_path (longest_walk (path_from_key key) t [] None)"


section \<open>Tokenization: \<open>build_memory_trie\<close>, \<open>find_phrases\<close>, \<open>tokenize\<close>\<close>

text \<open>
  What the functions below read from outside \<open>nlp_crud.py\<close> is a parameter: the tokens
  of the translation memory for the source language (the database query of \<open>tokenize\<close>),
  the default punctuation characters \<open>utils.punctuations() + utils.numbers()\<close>, the
  default stop words \<open>utils.stopwords(src_lang)\<close>, the process-wide table
  \<open>suggestion_trie_in_mem\<close> and whether a file exists.

  A punctuation list stands for the set of characters that the class \<open>'[' +
  ''.join(punctuations) + ']'\<close> matches; the empty list gives a pattern that does not
  compile (\<open>re.error\<close>).
\<close>

record stop_words =
  prepositions :: "ustring list"
  postpositions :: "ustring list"

type_synonym suggestion_trie = "(ustring \<times> rat) list trie"

record env =
  db_translation_memory :: "ustring list"
  utils_punctuations :: ustring
  utils_stopwords :: stop_words
  suggestion_trie_in_mem :: "(ustring \<times> suggestion_trie) list"
  path_exists :: "ustring \<Rightarrow> bool"

text \<open>
  \<open>build_memory_trie\<close>: every known token, its white space replaced by \<open>/\<close>, is a key
  with the value \<open>0\<close>.
\<close>

fun build_memory_trie_loop :: "ustring list \<Rightarrow> int trie \<Rightarrow> int trie" where
  "build_memory_trie_loop [] memory_trie = memory_trie"
| "build_memory_trie_loop (token # rest) memory_trie =
     build_memory_trie_loop rest
       (setitem (re_sub_runs is_space [SLASH] False token) 0 memory_trie)"

definition build_memory_trie :: "ustring list \<Rightarrow> int trie" where
  "build_memory_trie translation_memory = build_memory_trie_loop translation_memory empty_trie"

datatype phrase_state = Pre | Post

text \<open>The \<open>while\<close> loop of \<open>find_phrases\<close> over the remaining words.\<close>

fun find_phrases_loop ::
  "stop_words \<Rightarrow> ustring list \<Rightarrow> ustring list \<Rightarrow> ustring \<Rightarrow> phrase_state \<Rightarrow> ustring list" where
  "find_phrases_loop sw [] phrases current_phrase state = phrases @ [py_strip current_phrase]"
| "find_phrases_loop sw (word # ws) phrases current_phrase state =
     (case state of
        Pre \<Rightarrow>
          (if word \<in> set (prepositions sw)
           then find_phrases_loop sw ws phrases (current_phrase @ [SPACE] @ word) Pre
           else find_phrases_loop sw ws phrases (current_phrase @ [SPACE] @ word) Post)
      | Post \<Rightarrow>
          (if word \<in> set (postpositions sw)
           then find_phrases_loop sw ws phrases (current_phrase @ [SPACE] @ word) Post
           else find_phrases_loop sw ws (phrases @ [py_strip current_phrase]) word
                  (if word \<in> set (prepositions sw) then Pre else Post)))"

definition find_phrases :: "ustring \<Rightarrow> stop_words \<Rightarrow> bool \<Rightarrow> ustring list" where
  "find_phrases text sw include_phrases =
     (let words = py_split text in
      if \<not> include_phrases then words
      else find_phrases_loop sw words [] [] Pre)"

text \<open>
  The \<open>while temp != ""\<close> loop of \<open>tokenize\<close> that looks the longest known phrase up.
  \<open>new_chunks\<close> is never empty: it is kept as the chunks before the last one and the
  last one. The loop does not end when the longest prefix found is the empty key (a
  memory token \<open>""\<close> and a chunk that starts with \<open>/\<close>), so its result is an option.
\<close>

partial_function (option) memory_walk ::
  "int trie \<Rightarrow> ustring \<Rightarrow> ustring list \<Rightarrow> ustring \<Rightarrow> ustring list option" where
  "memory_walk memory_trie temp done last_chunk =
     (if temp = [] then Some (done @ [last_chunk])
      else
        (case longest_prefix (join [SLASH] (py_split temp)) memory_trie of
           Some key \<Rightarrow>
             memory_walk memory_trie (drop (length key) temp)
               (done @ [last_chunk, ustr ''###'' @ py_replace [SLASH] [SPACE] key]) []
         | None \<Rightarrow>
             (if SPACE \<in> set temp then
                (let indx = length (takeWhile (\<lambda>c. c \<noteq> SPACE) temp) in
                 memory_walk memory_trie (drop (indx + 1) temp) done
                   (last_chunk @ take (indx + 1) temp))
              else memory_walk memory_trie [] done (last_chunk @ temp))))"

text \<open>The loop unfolded once, by the shape of \<open>temp\<close>, for evaluation.\<close>

lemma memory_walk_Nil [code]:
  "memory_walk memory_trie [] done last_chunk = Some (done @ [last_chunk])"
  by (subst memory_walk.simps) simp

lemma memory_walk_Cons [code]:
  "memory_walk memory_trie (c # cs) done last_chunk =
     (case longest_prefix (join [SLASH] (py_split (c # cs))) memory_trie of
        Some key \<Rightarrow>
          memory_walk memory_trie (drop (length key) (c # cs))
            (done @ [last_chunk, ustr ''###'' @ py_replace [SLASH] [SPACE] key]) []
      | None \<Rightarrow>
          (if SPACE \<in> set (c # cs) then
             (let indx = length (takeWhile (\<lambda>x. x \<noteq> SPACE) (c # cs)) in
              memory_walk memory_trie (drop (indx + 1) (c # cs)) done
                (last_chunk @ take (indx + 1) (c # cs)))
           else memory_walk memory_trie [] done (last_chunk @ c # cs)))"
  by (subst memory_walk.simps) simp

text \<open>\<open>for chunk in chunks\<close> around that loop: \<open>updated_chunks += new_chunks\<close>.\<close>

fun memory_chunks :: "int trie \<Rightarrow> ustring list \<Rightarrow> ustring list \<Rightarrow> ustring list option" where
  "memory_chunks memory_trie [] updated_chunks = Some updated_chunks"
| "memory_chunks memory_trie (chunk # chunks) updated_chunks =
     (case memory_walk memory_trie chunk [] [] of
        None \<Rightarrow> None
      | Some new_chunks \<Rightarrow> memory_chunks memory_trie chunks (updated_chunks @ new_chunks))"

text \<open>The phrases of the chunks: a chunk marked \<open>###\<close> is a phrase as it is.\<close>

fun chunk_phrases :: "stop_words \<Rightarrow> bool \<Rightarrow> ustring list \<Rightarrow> ustring list \<Rightarrow> ustring list" where
  "chunk_phrases sw include_phrases [] phrases = phrases"
| "chunk_phrases sw include_phrases (chunk # chunks) phrases =
     (if startswith chunk (ustr ''###'')
      then chunk_phrases sw include_phrases chunks
             (phrases @ [py_replace (ustr ''###'') [] chunk])
      else chunk_phrases sw include_phrases chunks
             (phrases @ find_phrases chunk sw include_phrases))"

text \<open>
  The result of \<open>tokenize\<close>: a dictionary, in insertion order, from a token to its
  occurrences \<open>(sentenceId, [start, end])\<close> and its (empty) translations.
\<close>

type_synonym occurrence = "int \<times> offset"

record token_info =
  occurrences :: "occurrence list"
  token_translations :: "ustring list"

type_synonym tokens = "(ustring \<times> token_info) list"

record sentence_in =
  sentenceId :: int
  sentence :: ustring

fun add_occurrence :: "ustring \<Rightarrow> occurrence \<Rightarrow> tokens \<Rightarrow> tokens" where
  "add_occurrence phrase occ [] = [(phrase, \<lparr>occurrences = [occ], token_translations = []\<rparr>)]"
| "add_occurrence phrase occ ((k, info) # rest) =
     (if k = phrase then (k, info\<lparr>occurrences := occurrences info @ [occ]\<rparr>) # rest
      else (k, info) # add_occurrence phrase occ rest)"

text \<open>
  \<open>for phrase in phrases\<close>: every phrase kept is looked for in the sentence from the
  cursor \<open>start\<close> on; not finding it raises \<open>NotAvailableException\<close>.
\<close>

fun record_phrases ::
  "sentence_in \<Rightarrow> bool \<Rightarrow> ustring list \<Rightarrow> ustring list \<Rightarrow> nat \<Rightarrow> tokens \<Rightarrow> error + tokens" where
  "record_phrases sent include_stopwords sw_list [] start unique_tokens = Inr unique_tokens"
| "record_phrases sent include_stopwords sw_list (phrase # phrases) start unique_tokens =
     (if py_strip phrase = [] then
        record_phrases sent include_stopwords sw_list phrases start unique_tokens
      else if \<not> include_stopwords \<and> phrase \<in> set sw_list then
        record_phrases sent include_stopwords sw_list phrases start unique_tokens
      else
        (let offset = py_find (sentence sent) phrase start in
         if offset = - 1 then Inl NotAvailableException
         else
           record_phrases sent include_stopwords sw_list phrases (nat (offset + 1))
             (add_occurrence phrase
                (sentenceId sent, (offset, offset + int (length phrase))) unique_tokens)))"

text \<open>
  A result that may be an exception (\<open>Inl\<close>), inside an option that is \<open>None\<close> when the
  call does not return.
\<close>

type_synonym 'a outcome = "(error + 'a) option"

definition is_newline :: "codepoint \<Rightarrow> bool" where
  "is_newline c = (c = 10 \<or> c = 13)"

text \<open>The body of \<open>for sent in sent_list\<close>.\<close>

definition tokenize_sentence ::
  "int trie \<Rightarrow> bool \<Rightarrow> bool \<Rightarrow> bool \<Rightarrow> ustring \<Rightarrow> stop_words \<Rightarrow> sentence_in \<Rightarrow> tokens
     \<Rightarrow> tokens outcome" where
  "tokenize_sentence memory_trie use_translation_memory include_phrases include_stopwords
      punctuations sw sent unique_tokens =
     (if punctuations = [] then Some (Inl ReError)
      else
        (let text = re_sub_runs is_newline [SPACE] False (sentence sent);
             chunks = map py_strip
                        (re_split_class (\<lambda>c. c \<in> set punctuations) False [] text);
             chunks' =
               (if use_translation_memory then
                  (case memory_chunks memory_trie chunks [] of
                     None \<Rightarrow> None
                   | Some updated_chunks \<Rightarrow>
                       Some (map py_strip (filter (\<lambda>chk. py_strip chk \<noteq> []) updated_chunks)))
                else Some chunks)
         in case chunks' of
              None \<Rightarrow> None
            | Some chs \<Rightarrow>
                Some (record_phrases sent include_stopwords
                        (prepositions sw @ postpositions sw)
                        (chunk_phrases sw include_phrases chs []) 0 unique_tokens)))"

fun tokenize_loop ::
  "int trie \<Rightarrow> bool \<Rightarrow> bool \<Rightarrow> bool \<Rightarrow> ustring \<Rightarrow> stop_words \<Rightarrow> sentence_in list \<Rightarrow> tokens
     \<Rightarrow> tokens outcome" where
  "tokenize_loop mt um ip isw punctuations sw [] unique_tokens = Some (Inr unique_tokens)"
| "tokenize_loop mt um ip isw punctuations sw (sent # sents) unique_tokens =
     (case tokenize_sentence mt um ip isw punctuations sw sent unique_tokens of
        None \<Rightarrow> None
      | Some (Inl err) \<Rightarrow> Some (Inl err)
      | Some (Inr unique_tokens') \<Rightarrow>
          tokenize_loop mt um ip isw punctuations sw sents unique_tokens')"

text \<open>
  \<open>tokenize(db_, src_lang, sent_list, use_translation_memory, include_phrases,
  include_stopwords, punctuations, stop_words)\<close>; \<open>None\<close> for one of the last two
  arguments takes the default.
\<close>

definition tokenize ::
  "env \<Rightarrow> sentence_in list \<Rightarrow> bool \<Rightarrow> bool \<Rightarrow> bool \<Rightarrow> ustring option \<Rightarrow> stop_words option
     \<Rightarrow> tokens outcome" where
  "tokenize ev sent_list use_translation_memory include_phrases include_stopwords
      punctuations stop_words =
     (let sw = (case stop_words of None \<Rightarrow> utils_stopwords ev | Some w \<Rightarrow> w);
          puncts = (case punctuations of None \<Rightarrow> utils_punctuations ev | Some p \<Rightarrow> p);
          memory_trie = (if use_translation_memory
                         then build_memory_trie (db_translation_memory ev) else empty_trie)
      in tokenize_loop memory_trie use_translation_memory include_phrases include_stopwords
           puncts sw sent_list [])"

text \<open>The tokens a call yields, in order; \<open>None\<close> unless it returns a result.\<close>

definition token_list :: "tokens outcome \<Rightarrow> ustring list option" where
  "token_list res = (case res of Some (Inr toks) \<Rightarrow> Some (map fst toks) | _ \<Rightarrow> None)"


section \<open>Suggestions: \<open>extract_context\<close>, \<open>form_trie_keys\<close>, \<open>build_trie\<close>,
  \<open>get_translation_suggestion\<close>\<close>

text \<open>
  \<open>extract_context(token, offset, sentence, window_size, punctuations)\<close>. For an integer
  \<open>w\<close>, \<open>len(xs) >= w/2\<close> is \<open>2 * len(xs) \<ge> w\<close>, \<open>floor(w/2)\<close> is \<open>w div 2\<close> and
  \<open>ceil(w/2)\<close> is \<open>(w + 1) div 2\<close>.
\<close>

definition extract_context ::
  "ustring \<Rightarrow> offset \<Rightarrow> ustring \<Rightarrow> int \<Rightarrow> ustring \<Rightarrow> error + (int \<times> ustring list)" where
  "extract_context token offset sentence_text window_size punctuations =
     (if punctuations = [] then Inl ReError
      else
        (let front = py_slice sentence_text None (Some (fst offset));
             rear = py_slice sentence_text (Some (snd offset)) None;
             front1 = py_split (filter (\<lambda>c. c \<notin> set punctuations) front);
             rear1 = py_split (filter (\<lambda>c. c \<notin> set punctuations) rear);
             front2 = (if 2 * int (length front1) \<ge> window_size
                       then py_slice front1 (Some (- (window_size div 2))) None else front1);
             rear2 = (if 2 * int (length rear1) \<ge> window_size
                      then py_slice rear1 None (Some ((window_size + 1) div 2)) else rear1)
         in Inr (int (length front2), front2 @ [token] @ rear2)))"

text \<open>
  The end of \<open>form_trie_keys\<close>: \<open>sorted(keys, key=len, reverse=True)\<close> is stable, and
  with \<open>only_longest\<close> the loop keeps the keys up to the first shorter one.
\<close>

fun only_longest_loop :: "nat \<Rightarrow> ustring list \<Rightarrow> ustring list" where
  "only_longest_loop prev_len [] = []"
| "only_longest_loop prev_len (res # rest) =
     (if length res < prev_len then [] else res # only_longest_loop (length res) rest)"

definition finish_keys :: "ustring list \<Rightarrow> bool \<Rightarrow> ustring list" where
  "finish_keys keys only_longest =
     (let sorted_keys = sort_key (\<lambda>k. - int (length k)) keys in
      if \<not> only_longest then sorted_keys else only_longest_loop 0 sorted_keys)"

text \<open>
  \<open>form_trie_keys(prefix, to_left, to_right, prev_keys, only_longest)\<close>. The four
  equations are the four cases of \<open>a\<close> and \<open>b\<close> being set; \<open>pop(0)\<close> leaves the tails,
  which every recursive call receives as copies. Each call continues with the list the
  previous call returned (\<open>keys = form_trie_keys(..., keys, ...)\<close>).
\<close>

fun form_trie_keys ::
  "ustring \<Rightarrow> ustring list \<Rightarrow> ustring list \<Rightarrow> ustring list \<Rightarrow> bool \<Rightarrow> ustring list" where
  "form_trie_keys prefix [] [] prev_keys only_longest = finish_keys prev_keys only_longest"
| "form_trie_keys prefix (l # to_left) [] prev_keys only_longest =
     (let a = ustr ''/L:'' @ l;
          key_left = prefix @ a;
          keys = form_trie_keys key_left to_left [] (prev_keys @ [key_left]) only_longest
      in finish_keys keys only_longest)"
| "form_trie_keys prefix [] (r # to_right) prev_keys only_longest =
     (let b = ustr ''/R:'' @ r;
          key_right = prefix @ b;
          keys = form_trie_keys key_right [] to_right (prev_keys @ [key_right]) only_longest
      in finish_keys keys only_longest)"
| "form_trie_keys prefix (l # to_left) (r # to_right) prev_keys only_longest =
     (let a = ustr ''/L:'' @ l;
          b = ustr ''/R:'' @ r;
          key_left = prefix @ a;
          keys1 = form_trie_keys key_left to_left to_right (prev_keys @ [key_left]) only_longest;
          key_right = prefix @ b;
          keys2 = form_trie_keys key_right to_left to_right (keys1 @ [key_right]) only_longest;
          key_both_1 = prefix @ a @ b;
          key_both_2 = prefix @ b @ a;
          keys3 = form_trie_keys key_both_1 to_left to_right
                    (keys2 @ [key_both_1, key_both_2]) only_longest;
          keys4 = form_trie_keys key_both_2 to_left to_right keys3 only_longest
      in finish_keys keys4 only_longest)"

text \<open>
  The first field of a training sample or of a lookup: the token as a string, or its
  index in the context.
\<close>

datatype token_ref = TokenIndex int | TokenString ustring

text \<open>\<open>xs[i]\<close> and \<open>xs.index(x)\<close>.\<close>

definition py_nth :: "'a list \<Rightarrow> int \<Rightarrow> error + 'a" where
  "py_nth xs i =
     (if 0 \<le> i \<and> i < int (length xs) then Inr (xs ! nat i)
      else if i < 0 \<and> - int (length xs) \<le> i then Inr (xs ! nat (int (length xs) + i))
      else Inl IndexError)"

fun py_index :: "'a list \<Rightarrow> 'a \<Rightarrow> nat \<Rightarrow> error + int" where
  "py_index [] x i = Inl ValueError"
| "py_index (y # ys) x i = (if y = x then Inr (int i) else py_index ys x (Suc i))"

text \<open>The token and its index, from the first field and the context.\<close>

definition resolve_token :: "token_ref \<Rightarrow> ustring list \<Rightarrow> error + (ustring \<times> int)" where
  "resolve_token ref context =
     (case ref of
        TokenString token \<Rightarrow>
          (case py_index context token 0 of
             Inl err \<Rightarrow> Inl err
           | Inr token_index \<Rightarrow> Inr (token, token_index))
      | TokenIndex token_index \<Rightarrow>
          (case py_nth context token_index of
             Inl err \<Rightarrow> Inl err
           | Inr token \<Rightarrow> Inr (token, token_index)))"

text \<open>
  \<open>[context[i] for i in range(token_index-1, -1, -1)]\<close> and \<open>context[token_index+1:]\<close>.
\<close>

definition left_of :: "ustring list \<Rightarrow> int \<Rightarrow> ustring list" where
  "left_of context token_index = map (\<lambda>i. context ! i) (rev [0..<nat token_index])"

definition right_of :: "ustring list \<Rightarrow> int \<Rightarrow> ustring list" where
  "right_of context token_index = py_slice context (Some (token_index + 1)) None"

text \<open>
  A dictionary from a translation to a number, in insertion order: \<open>d[k] += w\<close> when
  \<open>k\<close> is a key, \<open>d[k] = w\<close> otherwise. The weights are Python floats; the model
  computes with exact rationals.
\<close>

fun add_weight :: "ustring \<Rightarrow> rat \<Rightarrow> (ustring \<times> rat) list \<Rightarrow> (ustring \<times> rat) list" where
  "add_weight k w [] = [(k, w)]"
| "add_weight k w ((k', w') # rest) =
     (if k' = k then (k', w' + w) # rest else (k', w') # add_weight k w rest)"

fun build_trie_keys :: "ustring \<Rightarrow> rat \<Rightarrow> ustring list \<Rightarrow> suggestion_trie \<Rightarrow> suggestion_trie" where
  "build_trie_keys translation w [] t = t"
| "build_trie_keys translation w (key # keys) t =
     build_trie_keys translation w keys
       (case getitem key t of
          Inr val \<Rightarrow> setitem key (add_weight translation w val) t
        | Inl err \<Rightarrow> setitem key [(translation, w)] t)"

type_synonym sample = "token_ref \<times> ustring list \<times> ustring"

fun build_trie_loop :: "sample list \<Rightarrow> suggestion_trie \<Rightarrow> error + suggestion_trie" where
  "build_trie_loop [] t = Inr t"
| "build_trie_loop ((ref, context, translation) # items) t =
     (case resolve_token ref context of
        Inl err \<Rightarrow> Inl err
      | Inr (token, token_index) \<Rightarrow>
          (let to_left = left_of context token_index;
               to_right = right_of context token_index;
               keys = form_trie_keys token to_left to_right [token] True;
               no_of_keys = length keys
           in if no_of_keys = 0 then Inl ZeroDivisionError
              else build_trie_loop items
                     (build_trie_keys translation (1 / of_nat no_of_keys) keys t)))"

definition build_trie :: "sample list \<Rightarrow> error + suggestion_trie" where
  "build_trie token_context__trans_list = build_trie_loop token_context__trans_list empty_trie"

text \<open>
  The loops of \<open>get_translation_suggestion\<close>: \<open>for sense in nod\<close>, \<open>for nod in nodes\<close> and
  \<open>for key in keys\<close>, over the scores \<open>trans\<close> and the sum \<open>total\<close> (primed here).
\<close>

fun score_senses :: "rat \<Rightarrow> (ustring \<times> rat) list \<Rightarrow> (ustring \<times> rat) list \<times> rat
    \<Rightarrow> (ustring \<times> rat) list \<times> rat" where
  "score_senses level [] acc = acc"
| "score_senses level ((sense, w) # rest) (trans', total') =
     score_senses level rest (add_weight sense (w * level * level) trans', total' + w)"

fun score_nodes :: "rat \<Rightarrow> (ustring \<times> rat) list list \<Rightarrow> (ustring \<times> rat) list \<times> rat
    \<Rightarrow> (ustring \<times> rat) list \<times> rat" where
  "score_nodes level [] acc = acc"
| "score_nodes level (nod # nodes) acc = score_nodes level nodes (score_senses level nod acc)"

fun score_keys :: "suggestion_trie \<Rightarrow> ustring list \<Rightarrow> (ustring \<times> rat) list \<times> rat
    \<Rightarrow> error + ((ustring \<times> rat) list \<times> rat)" where
  "score_keys tree [] acc = Inr acc"
| "score_keys tree (key # keys) acc =
     (if has_subtrie key tree \<or> has_key key tree then
        (case trie_values_at key tree of
           Inl err \<Rightarrow> Inl err
         | Inr nodes \<Rightarrow>
             (let level = of_nat (length (split_on SLASH [] key)) in
              score_keys tree keys (score_nodes level nodes acc)))
      else score_keys tree keys acc)"

definition get_translation_suggestion ::
  "token_ref \<Rightarrow> ustring list \<Rightarrow> suggestion_trie \<Rightarrow> error + (ustring \<times> rat) list" where
  "get_translation_suggestion ref context tree =
     (case resolve_token ref context of
        Inl err \<Rightarrow> Inl err
      | Inr (word, index) \<Rightarrow>
          (let to_left = left_of context index;
               to_right = right_of context index;
               keys = form_trie_keys word to_left to_right [word] False
           in case score_keys tree keys ([], 0) of
                Inl err \<Rightarrow> Inl err
              | Inr (trans', total') \<Rightarrow>
                  (let sorted_trans = sort_key (\<lambda>item. - snd item) trans' in
                   if sorted_trans \<noteq> [] \<and> total' = 0 then Inl ZeroDivisionError
                   else Inr (map (\<lambda>sense. (fst sense, snd sense / total')) sorted_trans))))"


section \<open>\<open>auto_translate\<close>\<close>

record draft_row = sentence_in +
  surrogateId :: ustring
  draft :: "ustring option"
  draftMeta :: "segment list option"

text \<open>
  The trie of the language pair. The table in memory is read under the key \<open>'model'\<close>;
  the branch that loads the file calls \<open>json.load\<close>, and the module does not import
  \<open>json\<close>.
\<close>

definition load_suggestion_trie :: "env \<Rightarrow> ustring \<Rightarrow> ustring \<Rightarrow> error + suggestion_trie" where
  "load_suggestion_trie ev source_code target_code =
     (let file_name = ustr ''models/suggestion_tries/'' @ source_code @ ustr ''-''
                        @ target_code @ ustr ''.json'' in
      if map_of (suggestion_trie_in_mem ev) source_code \<noteq> None then
        (case map_of (suggestion_trie_in_mem ev) (ustr ''model'') of
           None \<Rightarrow> Inl KeyError
         | Some sugg_trie \<Rightarrow> Inr sugg_trie)
      else if path_exists ev file_name then Inl NameError
      else Inr empty_trie)"

text \<open>The body of \<open>for occurence in tokens[token]['occurrences']\<close>.\<close>

definition translate_occurrence ::
  "env \<Rightarrow> suggestion_trie \<Rightarrow> ustring \<Rightarrow> occurrence \<Rightarrow> draft_row \<Rightarrow> error + draft_row" where
  "translate_occurrence ev sugg_trie token occurence sent =
     (let offset = snd occurence in
      case extract_context token offset (sentence sent) 5 (utils_punctuations ev) of
        Inl err \<Rightarrow> Inl err
      | Inr (index, context) \<Rightarrow>
          (case get_translation_suggestion (TokenIndex index) context sugg_trie of
             Inl err \<Rightarrow> Inl err
           | Inr suggestions \<Rightarrow>
               (if length suggestions > 0 then
                  (case replace_token (sentence sent) offset (fst (hd suggestions))
                          (draft sent) (draftMeta sent) suggestion of
                     Inl err \<Rightarrow> Inl err
                   | Inr (new_draft, meta) \<Rightarrow>
                       Inr (sent\<lparr>draft := Some new_draft, draftMeta := Some meta\<rparr>))
                else if draft sent = None \<or> draft sent = Some [] then
                  (let n = int (length (sentence sent)) in
                   Inr (sent\<lparr>draft := Some (sentence sent),
                             draftMeta := Some [((0, n), (0, n), untranslated)]\<rparr>))
                else Inr sent)))"

fun translate_occurrences ::
  "env \<Rightarrow> suggestion_trie \<Rightarrow> ustring \<Rightarrow> occurrence list \<Rightarrow> draft_row \<Rightarrow> error + draft_row" where
  "translate_occurrences ev sugg_trie token [] sent = Inr sent"
| "translate_occurrences ev sugg_trie token (occ # occs) sent =
     (case translate_occurrence ev sugg_trie token occ sent of
        Inl err \<Rightarrow> Inl err
      | Inr sent' \<Rightarrow> translate_occurrences ev sugg_trie token occs sent')"

fun translate_tokens :: "env \<Rightarrow> suggestion_trie \<Rightarrow> tokens \<Rightarrow> draft_row \<Rightarrow> error + draft_row" where
  "translate_tokens ev sugg_trie [] sent = Inr sent"
| "translate_tokens ev sugg_trie ((token, info) # rest) sent =
     (case translate_occurrences ev sugg_trie token (occurrences info) sent of
        Inl err \<Rightarrow> Inl err
      | Inr sent' \<Rightarrow> translate_tokens ev sugg_trie rest sent')"

text \<open>
  \<open>for sent in sentence_list\<close>: the sentence is tokenized with \<open>include_stopwords=True\<close>
  and the other switches at their defaults; \<open>if punctuations:\<close> passes a list only when
  it is not empty.
\<close>

fun auto_translate_loop ::
  "env \<Rightarrow> suggestion_trie \<Rightarrow> ustring option \<Rightarrow> stop_words option \<Rightarrow> draft_row list
     \<Rightarrow> draft_row list outcome" where
  "auto_translate_loop ev sugg_trie punctuations stop_words [] = Some (Inr [])"
| "auto_translate_loop ev sugg_trie punctuations stop_words (sent # sents) =
     (case tokenize ev [\<lparr>sentenceId = sentenceId sent, sentence = sentence sent\<rparr>]
             True True True
             (case punctuations of None \<Rightarrow> None | Some p \<Rightarrow> if p = [] then None else Some p)
             stop_words of
        None \<Rightarrow> None
      | Some (Inl err) \<Rightarrow> Some (Inl err)
      | Some (Inr toks) \<Rightarrow>
          (case translate_tokens ev sugg_trie toks sent of
             Inl err \<Rightarrow> Some (Inl err)
           | Inr sent' \<Rightarrow>
               (case auto_translate_loop ev sugg_trie punctuations stop_words sents of
                  None \<Rightarrow> None
                | Some (Inl err) \<Rightarrow> Some (Inl err)
                | Some (Inr sents') \<Rightarrow> Some (Inr (sent' # sents')))))"

definition auto_translate ::
  "env \<Rightarrow> draft_row list \<Rightarrow> ustring \<Rightarrow> ustring \<Rightarrow> ustring option \<Rightarrow> stop_words option
     \<Rightarrow> draft_row list outcome" where
  "auto_translate ev sentence_list source_code target_code punctuations stop_words =
     (case load_suggestion_trie ev source_code target_code of
        Inl err \<Rightarrow> Some (Inl err)
      | Inr sugg_trie \<Rightarrow> auto_translate_loop ev sugg_trie punctuations stop_words sentence_list)"


section \<open>Progress and export: \<open>obtain_agmt_progress\<close>, \<open>export_to_json\<close>\<close>

text \<open>
  The three sums of \<open>obtain_agmt_progress\<close>, in the order confirmed, suggestion,
  untranslated. \<open>draft_rows\<close> is what \<open>obtain_agmt_source\<close> returned, \<open>project_row\<close> what
  the query for the project returned. Iterating a \<open>draftMeta\<close> that is \<open>None\<close> is a
  \<open>TypeError\<close>. The quotients are Python floats, here exact rationals.
\<close>

fun progress_segments :: "segment list \<Rightarrow> int \<times> int \<times> int \<Rightarrow> int \<times> int \<times> int" where
  "progress_segments [] acc = acc"
| "progress_segments (seg # segs) (confirmed_length, suggestions_length, untranslated_length) =
     (let token_len = snd (src_range seg) - fst (src_range seg) in
      if token_len \<le> 1 then
        progress_segments segs (confirmed_length, suggestions_length, untranslated_length)
      else if status seg = confirmed then
        progress_segments segs
          (confirmed_length + token_len, suggestions_length, untranslated_length)
      else if status seg = suggestion then
        progress_segments segs
          (confirmed_length, suggestions_length + token_len, untranslated_length)
      else
        progress_segments segs
          (confirmed_length, suggestions_length, untranslated_length + token_len))"

fun progress_rows :: "draft_row list \<Rightarrow> int \<times> int \<times> int \<Rightarrow> error + (int \<times> int \<times> int)" where
  "progress_rows [] acc = Inr acc"
| "progress_rows (row # rows) acc =
     (case draftMeta row of
        None \<Rightarrow> Inl TypeError
      | Some segs \<Rightarrow> progress_rows rows (progress_segments segs acc))"

definition obtain_agmt_progress ::
  "'p option \<Rightarrow> draft_row list \<Rightarrow> error + (rat \<times> rat \<times> rat)" where
  "obtain_agmt_progress project_row draft_rows =
     (case project_row of
        None \<Rightarrow> Inl NotAvailableException
      | Some p \<Rightarrow>
          (case progress_rows draft_rows (0, 0, 0) of
             Inl err \<Rightarrow> Inl err
           | Inr (confirmed_length, suggestions_length, untranslated_length) \<Rightarrow>
               (let total_length = confirmed_length + suggestions_length + untranslated_length in
                if total_length = 0 then Inl ZeroDivisionError
                else Inr (of_int confirmed_length / of_int total_length,
                          of_int suggestions_length / of_int total_length,
                          of_int untranslated_length / of_int total_length))))"

text \<open>JSON values; the keys of an object are the string literals of the source.\<close>

datatype json =
    JNull
  | JBool bool
  | JInt int
  | JNum rat
  | JStr ustring
  | JArr "json list"
  | JObj "(string \<times> json) list"

text \<open>The dictionary \<open>algmt\<close> that \<open>export_to_json\<close> builds for segment \<open>i\<close>.\<close>

definition alignment :: "nat \<Rightarrow> segment \<Rightarrow> (string \<times> json) list" where
  "alignment i meta =
     (let algmt = [(''r0'', JArr [JInt (int i)]), (''r1'', JArr [JInt (int i)]),
                   (''status'', JStr (status meta))] in
      if status meta = confirmed then
        algmt @ [(''score'', JInt 1), (''verfied'', JBool True)]
      else if status meta = suggestion then
        algmt @ [(''score'', JNum (1 / 2)), (''verified'', JBool False)]
      else
        algmt @ [(''score'', JInt 0), (''verified'', JBool False)])"

text \<open>
  \<open>for i, meta in enumerate(row.draftMeta)\<close>: the source tokens, the draft tokens and the
  alignments of a row.
\<close>

fun export_segments ::
  "ustring \<Rightarrow> ustring \<Rightarrow> nat \<Rightarrow> segment list \<Rightarrow> json list \<times> json list \<times> json list
     \<Rightarrow> json list \<times> json list \<times> json list" where
  "export_segments src dr i [] acc = acc"
| "export_segments src dr i (meta # metas) (r0_tokens, r1_tokens, alignments) =
     (let src_token = slice src (fst (src_range meta)) (snd (src_range meta));
          trg_token = slice dr (fst (dst_range meta)) (snd (dst_range meta))
      in export_segments src dr (Suc i) metas
           (r0_tokens @ [JStr src_token], r1_tokens @ [JStr trg_token],
            alignments @ [JObj (alignment i meta)]))"

definition json_text :: "ustring option \<Rightarrow> json" where
  "json_text t = (case t of None \<Rightarrow> JNull | Some txt \<Rightarrow> JStr txt)"

definition export_row :: "draft_row \<Rightarrow> error + json" where
  "export_row row =
     (case draftMeta row of
        None \<Rightarrow> Inl TypeError
      | Some metas \<Rightarrow>
          (if metas \<noteq> [] \<and> draft row = None then Inl TypeError
           else
             (let dr = (case draft row of None \<Rightarrow> [] | Some d \<Rightarrow> d);
                  (r0_tokens, r1_tokens, alignments) =
                     export_segments (sentence row) dr 0 metas ([], [], [])
              in Inr (JObj
                   [(''resources'', JObj
                       [(''r0'', JObj [(''text'', JStr (sentence row)),
                                       (''tokens'', JArr r0_tokens),
                                       (''metadata'', JObj [(''contextId'', JStr (surrogateId row))])]),
                        (''r1'', JObj [(''text'', json_text (draft row)),
                                       (''tokens'', JArr r1_tokens),
                                       (''metadata'', JObj [(''contextId'', JStr (surrogateId row))])])]),
                    (''alignments'', JArr alignments)]))))"

fun export_rows :: "draft_row list \<Rightarrow> json list \<Rightarrow> error + json list" where
  "export_rows [] segments = Inr segments"
| "export_rows (row # rows) segments =
     (case export_row row of
        Inl err \<Rightarrow> Inl err
      | Inr row_obj \<Rightarrow> export_rows rows (segments @ [row_obj]))"

text \<open>
  \<open>export_to_json(source_lang, target_lang, sentence_list, last_modified)\<close>. The output
  has the key \<open>'metadata'\<close>; with a language given, the source subscripts
  \<open>json_output['metaData']\<close>, a \<open>KeyError\<close>.
\<close>

definition export_to_json :: "'l option \<Rightarrow> 'l option \<Rightarrow> draft_row list \<Rightarrow> json \<Rightarrow> error + json" where
  "export_to_json source_lang target_lang sentence_list last_modified =
     (case source_lang of
        Some lang \<Rightarrow> Inl KeyError
      | None \<Rightarrow>
          (case target_lang of
             Some lang \<Rightarrow> Inl KeyError
           | None \<Rightarrow>
               (case export_rows sentence_list [] of
                  Inl err \<Rightarrow> Inl err
                | Inr segments \<Rightarrow>
                    Inr (JObj
                      [(''metadata'', JObj
                          [(''resources'', JObj [(''r0'', JObj []), (''r1'', JObj [])]),
                           (''modified'', last_modified)]),
                       (''segments'', JArr segments)]))))"


section \<open>Derived notions and the inputs of the scenarios\<close>

text \<open>
  What \<open>replace_token\<close> makes of the segment of the token (a prefix, the token, a
  suffix), and a segment moved on the draft side.
\<close>

definition shift_dst :: "int \<Rightarrow> segment \<Rightarrow> segment" where
  "shift_dst od g = (src_range g, (fst (dst_range g) + od, snd (dst_range g) + od), status g)"

definition middle_segments :: "offset \<Rightarrow> segment \<Rightarrow> int \<Rightarrow> ustring \<Rightarrow> segment list" where
  "middle_segments tok g len tag =
     (let a = fst (src_range g); b = snd (src_range g); c = fst (dst_range g);
          s = fst tok; e = snd tok in
      (if s = a then [] else [((a, s), (c, c + (s - a)), untranslated)]) @
      [((s, e), (c + (s - a), c + (s - a) + len), tag)] @
      (if e = b then [] else [((e, b), (c + (s - a) + len, c + (s - a) + len + (b - e)),
                               untranslated)]))"

text \<open>
  The round trip of the tokenizer: every recorded occurrence of a token, cut out of the
  sentence with its identifier, is the token.
\<close>

definition roundtrip :: "sentence_in list \<Rightarrow> tokens \<Rightarrow> bool" where
  "roundtrip sents toks =
     (\<forall>(tok, info)\<in>set toks. \<forall>(sid, off)\<in>set (occurrences info).
        \<exists>sent\<in>set sents. sentenceId sent = sid \<and> slice (sentence sent) (fst off) (snd off) = tok)"

text \<open>
  The Hindi sentence of the first scenario, by code points (Devanagari, U+0915 to
  U+094B): the words \<open>jivan\<close>, \<open>ke\<close>, \<open>vachan\<close>, \<open>ko\<close>, \<open>dekho\<close> separated by single
  spaces, with \<open>ke\<close> a preposition and \<open>ko\<close> a postposition.
\<close>

definition w_jivan :: ustring where
  "w_jivan = [2332, 2368, 2357, 2344]"

definition w_ke :: ustring where
  "w_ke = [2325, 2375]"

definition w_vachan :: ustring where
  "w_vachan = [2357, 2330, 2344]"

definition w_ko :: ustring where
  "w_ko = [2325, 2379]"

definition w_dekho :: ustring where
  "w_dekho = [2342, 2375, 2326, 2379]"

definition ke_vachan_ko :: ustring where
  "ke_vachan_ko = w_ke @ [SPACE] @ w_vachan @ [SPACE] @ w_ko"

definition jivan_ke_vachan_ko :: ustring where
  "jivan_ke_vachan_ko = w_jivan @ [SPACE] @ ke_vachan_ko"

definition jivan_sentence :: ustring where
  "jivan_sentence = jivan_ke_vachan_ko @ [SPACE] @ w_dekho"

definition jivan_stopwords :: stop_words where
  "jivan_stopwords = \<lparr>prepositions = [w_ke], postpositions = [w_ko]\<rparr>"

text \<open>
  Surroundings for the scenarios: punctuation marks and digits as default punctuation,
  no file of a learnt trie; an empty translation memory and no trie in memory
  (\<open>plain_env\<close>), one known phrase and one stop word (\<open>life_env\<close>), and a trie in memory
  that knows \<open>word\<close> as \<open>WORT\<close> (\<open>learnt_env\<close>).
\<close>

definition plain_env :: env where
  "plain_env =
     \<lparr>db_translation_memory = [], utils_punctuations = ustr '',.;:!?0123456789'',
      utils_stopwords = \<lparr>prepositions = [], postpositions = []\<rparr>,
      suggestion_trie_in_mem = [],
      path_exists = (\<lambda>file_name. False)\<rparr>"

definition life_env :: env where
  "life_env =
     \<lparr>db_translation_memory = [ustr ''of joy''], utils_punctuations = ustr '',.;:!?0123456789'',
      utils_stopwords = \<lparr>prepositions = [ustr ''of''], postpositions = []\<rparr>,
      suggestion_trie_in_mem = [],
      path_exists = (\<lambda>file_name. False)\<rparr>"

definition learnt_env :: env where
  "learnt_env =
     \<lparr>db_translation_memory = [], utils_punctuations = ustr '',.;:!?0123456789'',
      utils_stopwords = \<lparr>prepositions = [], postpositions = []\<rparr>,
      suggestion_trie_in_mem =
        [(ustr ''en'', Node None [(ustr ''word'', Node (Some [(ustr ''WORT'', 1)]) [])]),
         (ustr ''model'', Node None [(ustr ''word'', Node (Some [(ustr ''WORT'', 1)]) [])])],
      path_exists = (\<lambda>file_name. False)\<rparr>"

text \<open>
  The trie of the fifth scenario: the keys \<open>b/L:a/R:c\<close> and \<open>b/R:c/L:a\<close>, each with the
  translation \<open>B\<close> at weight one half.
\<close>

definition trained_trie :: suggestion_trie where
  "trained_trie =
     Node None
       [(ustr ''b'',
         Node None
           [(ustr ''L:a'', Node None [(ustr ''R:c'', Node (Some [(ustr ''B'', 1 / 2)]) [])]),
            (ustr ''R:c'', Node None [(ustr ''L:a'', Node (Some [(ustr ''B'', 1 / 2)]) [])])])]"


section \<open>Properties of \<open>replace_token\<close>\<close>

subsection \<open>Slices within bounds\<close>

lemma slice_within:
  "0 \<le> i \<Longrightarrow> i \<le> j \<Longrightarrow> j \<le> int (length xs) \<Longrightarrow>
     slice xs i j = take (nat j - nat i) (drop (nat i) xs)"
  by (auto simp: py_slice_def slice_index_def Let_def min_def)

lemma length_slice_within:
  "0 \<le> i \<Longrightarrow> i \<le> j \<Longrightarrow> j \<le> int (length xs) \<Longrightarrow> int (length (slice xs i j)) = j - i"
  by (auto simp: py_slice_def slice_index_def Let_def min_def)

lemma slice_from_0: "0 \<le> j \<Longrightarrow> j \<le> int (length xs) \<Longrightarrow> slice xs 0 j = take (nat j) xs"
  by (simp add: slice_within)

lemma slice_to_end:
  "0 \<le> i \<Longrightarrow> i \<le> int (length xs) \<Longrightarrow> slice xs i (int (length xs)) = drop (nat i) xs"
  by (simp add: slice_within)

lemma slice_all: "slice xs 0 (int (length xs)) = xs"
  by (simp add: py_slice_def slice_index_def)

lemma take_drop_join:
  assumes "i \<le> j" and "j \<le> k"
  shows "take (j - i) (drop i xs) @ take (k - j) (drop j xs) = take (k - i) (drop i xs)"
proof -
  from assms have "take (k - i) (drop i xs) = take ((j - i) + (k - j)) (drop i xs)" by simp
  also have "\<dots> = take (j - i) (drop i xs) @ take (k - j) (drop (j - i) (drop i xs))"
    by (rule take_add)
  also from assms have "drop (j - i) (drop i xs) = drop j xs" by simp
  finally show ?thesis by simp
qed

lemma slice_join:
  assumes "0 \<le> i" and "i \<le> j" and "j \<le> k" and "k \<le> int (length xs)"
  shows "slice xs i j @ slice xs j k = slice xs i k"
proof -
  from assms have "nat i \<le> nat j" "nat j \<le> nat k" by simp_all
  from take_drop_join[OF this, of xs] assms show ?thesis by (simp add: slice_within)
qed

subsection \<open>A token strictly inside the single segment of a fresh sentence\<close>

text \<open>
  Claim C1. The source has one untranslated segment that covers it, and the token offset
  \<open>[s, e]\<close> lies strictly inside it (\<open>0 < s\<close>, \<open>e < len(source)\<close>, the token not empty).
  Then \<open>replace_token\<close> returns three parts: the untranslated prefix \<open>[0, s)\<close> copied
  from the source, the token \<open>[s, e]\<close> mapped to the translation's range and tagged
  with the given tag, and the untranslated suffix \<open>[e, len(source))\<close>, with the draft
  offsets after the token moved by the translation's length. The draft passed in plays
  no part.
\<close>

theorem replace_token_inside_single:
  assumes "0 < s" and "s < e" and "e < int (length source)"
  shows "replace_token source (s, e) translation dr
           (Some [((0, int (length source)), (0, int (length source)), untranslated)]) tag =
         Inr (take (nat s) source @ translation @ drop (nat e) source,
              [((0, s), (0, s), untranslated),
               ((s, e), (s, s + int (length translation)), tag),
               ((e, int (length source)),
                (s + int (length translation),
                 s + int (length translation) + (int (length source) - e)), untranslated)])"
proof -
  from assms have ne: "source \<noteq> []" by auto
  from assms ne show ?thesis
    by (simp add: replace_token_def replace_step_def begin_part_def end_part_def intersects_def
        src_range_def dst_range_def rt_init_def add_draft_def add_meta_def Let_def
        set_translation_offset0_def set_translation_offset1_def slice_from_0 slice_to_end
        length_slice_within)
qed

text \<open>
  The instance of the claim: in \<open>"abc def ghi"\<close> the token \<open>[4, 7]\<close> becomes \<open>"WORD"\<close>;
  the draft is \<open>"abc WORD ghi"\<close> and the draft offsets are \<open>(0,4)\<close>, \<open>(4,8)\<close>, \<open>(8,12)\<close>.
\<close>

theorem replace_token_inside_single_witness:
  "replace_token (ustr ''abc def ghi'') (4, 7) (ustr ''WORD'') (Some (ustr ''abc def ghi''))
      (Some [((0, 11), (0, 11), untranslated)]) confirmed =
    Inr (ustr ''abc WORD ghi'',
         [((0, 4), (0, 4), untranslated), ((4, 7), (4, 8), confirmed),
          ((7, 11), (8, 12), untranslated)])"
  using replace_token_inside_single [of 4 7 "ustr ''abc def ghi''" "ustr ''WORD''"
      "Some (ustr ''abc def ghi'')" confirmed]
  by (simp add: ustr_def)

subsection \<open>The loop before, at and after the segment of the token\<close>

lemma replace_loop_append:
  "replace_loop src tok tr dr tag (xs @ ys) st =
     (case replace_loop src tok tr dr tag xs st of
        Inl err \<Rightarrow> Inl err
      | Inr st' \<Rightarrow> replace_loop src tok tr dr tag ys st')"
  by (induction xs arbitrary: st) (auto split: sum.splits)

lemma loop_before:
  "\<forall>g\<in>set pre. \<not> intersects tok (src_range g) \<and> snd (src_range g) < snd tok \<Longrightarrow>
   replace_loop src tok tr (Some dr) tag pre st =
     Inr (st\<lparr>updated_draft := updated_draft st @ concat (map (dst_slice dr) pre),
             updated_meta := updated_meta st @ map Own pre\<rparr>)"
proof (induction pre arbitrary: st)
  case Nil
  then show ?case by simp
next
  case (Cons g pre)
  then show ?case
    by (simp add: replace_step_def add_draft_def add_meta_def dst_slice_def Let_def)
qed

lemma loop_after:
  "\<forall>g\<in>set post. \<not> intersects tok (src_range g) \<and> \<not> snd (src_range g) < snd tok \<Longrightarrow>
   offset_diff st = Some od \<Longrightarrow>
   replace_loop src tok tr (Some dr) tag post st =
     Inr (st\<lparr>updated_draft := updated_draft st @ concat (map (dst_slice dr) post),
             updated_meta := updated_meta st @ map (Own \<circ> shift_dst od) post\<rparr>)"
proof (induction post arbitrary: st)
  case Nil
  then show ?case by simp
next
  case (Cons g post)
  then show ?case
    by (simp add: replace_step_def add_draft_def add_meta_def dst_slice_def Let_def shift_dst_def)
qed

lemma write_cell0_Own: "write_cell0 v \<circ> Own = Own"
  by (rule ext) simp

lemma write_cell1_Own: "write_cell1 v \<circ> Own = Own"
  by (rule ext) simp

lemma entry_segment_Own: "entry_segment \<circ> Own = id"
  by (rule ext) simp

lemma entry_segment_Own_comp: "entry_segment \<circ> (Own \<circ> f) = f"
  by (rule ext) simp

lemma step_inside:
  assumes "token_inside tok g" and "0 \<le> fst (src_range g)"
    and "snd (src_range g) \<le> int (length source)"
    and "updated_meta st = map Own pre" and "translation_offset st = (None, None)"
  shows "\<exists>st'. replace_step source tok tr dr tag g st = Inr st' \<and>
           updated_draft st' = updated_draft st @ slice source (fst (src_range g)) (fst tok) @ tr
                @ slice source (snd tok) (snd (src_range g)) \<and>
           map entry_segment (updated_meta st') =
              pre @ middle_segments tok g (int (length tr)) tag \<and>
           offset_diff st' = Some (fst (dst_range g) + (fst tok - fst (src_range g))
                + int (length tr) + (snd (src_range g) - snd tok) - snd (dst_range g))"
proof -
  obtain a b c d stt where g: "g = ((a, b), (c, d), stt)" by (cases g) auto
  obtain s e where tok: "tok = (s, e)" by (cases tok)
  from assms(1) have ins: "a \<le> s" "s < e" "e \<le> b"
    by (simp_all add: token_inside_def g tok src_range_def)
  from assms(2,3) have rng: "0 \<le> a" "b \<le> int (length source)"
    by (simp_all add: g src_range_def)
  have inter: "intersects tok (src_range g)"
    using ins by (simp add: intersects_def g tok src_range_def)
  have l1: "int (length (slice source e b)) = b - e"
    using ins rng by (intro length_slice_within) simp_all
  have e1: "slice source a a = []" by (simp add: py_slice_def)
  have e2: "slice source b b = []" by (simp add: py_slice_def)
  show ?thesis
    using ins inter l1 assms(4,5)
    by (cases "s = a"; cases "e = b")
      (simp_all add: replace_step_def begin_part_def end_part_def g tok src_range_def
        dst_range_def Let_def add_draft_def add_meta_def set_translation_offset0_def
        set_translation_offset1_def write_cell0_Own write_cell1_Own
        entry_segment_Own middle_segments_def e1 e2)
qed

subsection \<open>Contiguous segment lists\<close>

lemma contiguous_append:
  "contiguous s0 d0 (xs @ ys) s1 d1 =
     (\<exists>sm dm. contiguous s0 d0 xs sm dm \<and> contiguous sm dm ys s1 d1)"
  by (induction xs arbitrary: s0 d0) auto

lemma contiguous_bounds:
  "contiguous s0 d0 gs s1 d1 \<Longrightarrow> s0 \<le> s1 \<and> d0 \<le> d1"
proof (induction gs arbitrary: s0 d0)
  case Nil
  then show ?case by simp
next
  case (Cons g gs)
  from Cons.prems have tl: "contiguous (snd (src_range g)) (snd (dst_range g)) gs s1 d1"
    and hd: "s0 \<le> snd (src_range g)" "d0 \<le> snd (dst_range g)" by auto
  from Cons.IH[OF tl] hd show ?case by simp
qed

lemma contiguous_member:
  "contiguous s0 d0 gs s1 d1 \<Longrightarrow> g \<in> set gs \<Longrightarrow>
     s0 \<le> fst (src_range g) \<and> fst (src_range g) \<le> snd (src_range g) \<and> snd (src_range g) \<le> s1"
proof (induction gs arbitrary: s0 d0)
  case Nil
  then show ?case by simp
next
  case (Cons h gs)
  from Cons.prems(1) have tl: "contiguous (snd (src_range h)) (snd (dst_range h)) gs s1 d1"
    and hd: "fst (src_range h) = s0" "s0 \<le> snd (src_range h)" by auto
  from contiguous_bounds[OF tl] have b: "snd (src_range h) \<le> s1" by simp
  show ?case
  proof (cases "g = h")
    case True
    with hd b show ?thesis by simp
  next
    case False
    with Cons.prems(2) have "g \<in> set gs" by simp
    from Cons.IH[OF tl this] hd show ?thesis by auto
  qed
qed

lemma contiguous_shift:
  "contiguous s0 d0 gs s1 d1 \<Longrightarrow>
     contiguous s0 (d0 + od) (map (shift_dst od) gs) s1 (d1 + od)"
  by (induction gs arbitrary: s0 d0)
     (auto simp: shift_dst_def src_range_def dst_range_def)

lemma contiguous_middle:
  assumes "token_inside tok g" and "0 \<le> len"
  shows "contiguous (fst (src_range g)) (fst (dst_range g)) (middle_segments tok g len tag)
           (snd (src_range g))
           (fst (dst_range g) + (fst tok - fst (src_range g)) + len + (snd (src_range g) - snd tok))"
  using assms
  by (auto simp: token_inside_def middle_segments_def Let_def src_range_def dst_range_def)

lemma concat_dst_slices:
  "contiguous s0 d0 gs s1 d1 \<Longrightarrow> 0 \<le> d0 \<Longrightarrow> d1 \<le> int (length xs) \<Longrightarrow>
     concat (map (dst_slice xs) gs) = slice xs d0 d1"
proof (induction gs arbitrary: s0 d0)
  case Nil
  then show ?case by (simp add: py_slice_def slice_index_def)
next
  case (Cons g gs)
  let ?d = "snd (dst_range g)"
  from Cons.prems have tl: "contiguous (snd (src_range g)) ?d gs s1 d1"
    and hd: "fst (dst_range g) = d0" "d0 \<le> ?d" by auto
  from contiguous_bounds[OF tl] have le: "?d \<le> d1" by simp
  have "concat (map (dst_slice xs) gs) = slice xs ?d d1"
    using Cons.IH[OF tl] hd Cons.prems by simp
  moreover have "dst_slice xs g = slice xs d0 ?d" by (simp add: dst_slice_def hd)
  moreover have "slice xs d0 ?d @ slice xs ?d d1 = slice xs d0 d1"
    using hd le Cons.prems by (intro slice_join) simp_all
  ultimately show ?case by simp
qed

subsection \<open>The segmentation is preserved\<close>

text \<open>
  Claim C2. The input meta is an ordered, gap-free and overlap-free segmentation of the
  source \<open>[0, len(source))\<close> and of the draft \<open>[0, len(draft))\<close>, and the (non-empty) token
  offset lies inside one of its segments. Then \<open>replace_token\<close> returns a draft and a
  meta, the returned meta is again such a segmentation of the source and of the
  returned draft, and the returned draft is the concatenation, in order, of its slices
  at the draft ranges of the returned meta.
\<close>

theorem replace_token_keeps_segmentation:
  assumes seg: "segmentation meta source dr"
    and mem: "g \<in> set meta"
    and ins: "token_inside tok g"
  shows "\<exists>draft' meta'.
           replace_token source tok translation (Some dr) (Some meta) tag = Inr (draft', meta') \<and>
           segmentation meta' source draft' \<and>
           concat (map (dst_slice draft') meta') = draft'"
proof -
  let ?n = "int (length source)" and ?m = "int (length dr)"
  let ?a = "fst (src_range g)" and ?b = "snd (src_range g)"
  let ?c = "fst (dst_range g)" and ?d = "snd (dst_range g)"
  let ?L = "int (length translation)"
  from mem obtain pre post where meta: "meta = pre @ g # post"
    by (auto dest: split_list)
  from seg have "contiguous 0 0 (pre @ g # post) ?n ?m"
    by (simp add: segmentation_def meta)
  then obtain sm dm where cpre: "contiguous 0 0 pre sm dm"
    and cg: "contiguous sm dm (g # post) ?n ?m"
    by (auto simp: contiguous_append)
  from cg have sm: "sm = ?a" and dm: "dm = ?c" and ab: "?a \<le> ?b" and cd: "?c \<le> ?d"
    and cpost: "contiguous ?b ?d post ?n ?m" by auto
  from contiguous_bounds[OF cpre] have a0: "0 \<le> ?a" and c0: "0 \<le> ?c" by (simp_all add: sm dm)
  from contiguous_bounds[OF cpost] have bn: "?b \<le> ?n" and dmm: "?d \<le> ?m" by simp_all
  from ins have tk: "?a \<le> fst tok" "fst tok < snd tok" "snd tok \<le> ?b"
    by (simp_all add: token_inside_def)
  have before: "\<forall>h\<in>set pre. \<not> intersects tok (src_range h) \<and> snd (src_range h) < snd tok"
  proof
    fix h assume "h \<in> set pre"
    from contiguous_member[OF cpre this] have "snd (src_range h) \<le> ?a" by (simp add: sm)
    with tk show "\<not> intersects tok (src_range h) \<and> snd (src_range h) < snd tok"
      by (simp add: intersects_def)
  qed
  have after: "\<forall>h\<in>set post. \<not> intersects tok (src_range h) \<and> \<not> snd (src_range h) < snd tok"
  proof
    fix h assume "h \<in> set post"
    from contiguous_member[OF cpost this]
    have "?b \<le> fst (src_range h)" "fst (src_range h) \<le> snd (src_range h)" by simp_all
    with tk show "\<not> intersects tok (src_range h) \<and> \<not> snd (src_range h) < snd tok"
      by (simp add: intersects_def)
  qed
  let ?st1 = "rt_init\<lparr>updated_draft := updated_draft rt_init @ concat (map (dst_slice dr) pre),
                      updated_meta := updated_meta rt_init @ map Own pre\<rparr>"
  have run1: "replace_loop source tok translation (Some dr) tag pre rt_init = Inr ?st1"
    by (rule loop_before[OF before])
  have m1: "updated_meta ?st1 = map Own pre" and t1: "translation_offset ?st1 = (None, None)"
    by (simp_all add: rt_init_def)
  let ?od = "?c + (fst tok - ?a) + ?L + (?b - snd tok) - ?d"
  let ?mid = "middle_segments tok g ?L tag"
  let ?text = "slice source ?a (fst tok) @ translation @ slice source (snd tok) ?b"
  from step_inside[OF ins a0 bn m1 t1, of translation "Some dr" tag]
  obtain st2 where run2: "replace_step source tok translation (Some dr) tag g ?st1 = Inr st2"
    and d2: "updated_draft st2 = updated_draft ?st1 @ ?text"
    and m2: "map entry_segment (updated_meta st2) = pre @ ?mid"
    and o2: "offset_diff st2 = Some ?od"
    by blast
  let ?st3 = "st2\<lparr>updated_draft := updated_draft st2 @ concat (map (dst_slice dr) post),
                   updated_meta := updated_meta st2 @ map (Own \<circ> shift_dst ?od) post\<rparr>"
  have run3: "replace_loop source tok translation (Some dr) tag post st2 = Inr ?st3"
    by (rule loop_after[OF after o2])
  have loop: "replace_loop source tok translation (Some dr) tag meta rt_init = Inr ?st3"
    by (simp add: meta replace_loop_append run1 run2 run3)
  let ?draft' = "concat (map (dst_slice dr) pre) @ ?text @ concat (map (dst_slice dr) post)"
  let ?meta' = "pre @ ?mid @ map (shift_dst ?od) post"
  have ne: "meta \<noteq> []" using mem by auto
  have res: "replace_token source tok translation (Some dr) (Some meta) tag
               = Inr (?draft', ?meta')"
  proof -
    have "replace_token source tok translation (Some dr) (Some meta) tag =
            (case replace_loop source tok translation (Some dr) tag meta rt_init of
               Inl err \<Rightarrow> Inl err
             | Inr st \<Rightarrow> Inr (updated_draft st, map entry_segment (updated_meta st)))"
      using ne by (simp add: replace_token_def)
    also have "\<dots> = Inr (updated_draft ?st3, map entry_segment (updated_meta ?st3))"
      by (simp only: loop sum.case)
    also have "\<dots> = Inr (?draft', ?meta')"
      by (simp add: d2 m2 rt_init_def entry_segment_Own_comp)
    finally show ?thesis .
  qed
  have lpre: "concat (map (dst_slice dr) pre) = slice dr 0 ?c"
    using concat_dst_slices[OF cpre, of dr] cd dmm by (simp add: dm)
  have lpost: "concat (map (dst_slice dr) post) = slice dr ?d ?m"
    using concat_dst_slices[OF cpost, of dr] c0 cd by simp
  have len1: "int (length (slice dr 0 ?c)) = ?c"
    using c0 cd dmm by (subst length_slice_within) simp_all
  have len2: "int (length (slice dr ?d ?m)) = ?m - ?d"
    using c0 cd dmm by (subst length_slice_within) simp_all
  have len3: "int (length (slice source ?a (fst tok))) = fst tok - ?a"
    using a0 tk bn by (subst length_slice_within) simp_all
  have len4: "int (length (slice source (snd tok) ?b)) = ?b - snd tok"
    using a0 tk bn by (subst length_slice_within) simp_all
  have len: "int (length ?draft') = ?m + ?od"
    by (simp add: lpre lpost len1 len2 len3 len4)
  have cmid: "contiguous ?a ?c ?mid ?b (?d + ?od)"
  proof -
    have "?d + ?od = ?c + (fst tok - ?a) + ?L + (?b - snd tok)" by simp
    with contiguous_middle[OF ins, of ?L tag] show ?thesis by (simp only:)
  qed
  have cshift: "contiguous ?b (?d + ?od) (map (shift_dst ?od) post) ?n (?m + ?od)"
    by (rule contiguous_shift[OF cpost])
  have cpre': "contiguous 0 0 pre ?a ?c" using cpre by (simp add: sm dm)
  have call: "contiguous 0 0 ?meta' ?n (int (length ?draft'))"
    unfolding len contiguous_append using cpre' cmid cshift by blast
  have seg': "segmentation ?meta' source ?draft'"
    using call by (simp add: segmentation_def)
  have "concat (map (dst_slice ?draft') ?meta') = slice ?draft' 0 (int (length ?draft'))"
    by (rule concat_dst_slices[OF call]) simp_all
  then have cat: "concat (map (dst_slice ?draft') ?meta') = ?draft'"
    by (simp only: slice_all)
  from res seg' cat show ?thesis by blast
qed

text \<open>
  An instance: the draft \<open>"abc WORD ghi"\<close> of \<open>"abc def ghi"\<close> under three segments, and
  the token \<open>[8, 11]\<close> inside the last of them.
\<close>

theorem replace_token_keeps_segmentation_witness:
  "segmentation [((0, 4), (0, 4), untranslated), ((4, 7), (4, 8), confirmed),
                 ((7, 11), (8, 12), untranslated)]
      (ustr ''abc def ghi'') (ustr ''abc WORD ghi'') \<and>
   (((7, 11), (8, 12), untranslated) :: segment) \<in>
      set [((0, 4), (0, 4), untranslated), ((4, 7), (4, 8), confirmed),
           ((7, 11), (8, 12), untranslated)] \<and>
   token_inside (8, 11) ((7, 11), (8, 12), untranslated) \<and>
   (\<exists>draft' meta'.
      replace_token (ustr ''abc def ghi'') (8, 11) (ustr ''Z'') (Some (ustr ''abc WORD ghi''))
        (Some [((0, 4), (0, 4), untranslated), ((4, 7), (4, 8), confirmed),
               ((7, 11), (8, 12), untranslated)]) confirmed = Inr (draft', meta') \<and>
      segmentation meta' (ustr ''abc def ghi'') draft' \<and>
      concat (map (dst_slice draft') meta') = draft')"
proof -
  let ?M = "[((0, 4), (0, 4), untranslated), ((4, 7), (4, 8), confirmed),
             ((7, 11), (8, 12), untranslated)] :: segment list"
  have h1: "segmentation ?M (ustr ''abc def ghi'') (ustr ''abc WORD ghi'')"
    by (simp add: segmentation_def src_range_def dst_range_def ustr_def)
  have h2: "((7, 11), (8, 12), untranslated) \<in> set ?M" by simp
  have h3: "token_inside (8, 11) ((7, 11), (8, 12), untranslated)"
    by (simp add: token_inside_def src_range_def)
  from replace_token_keeps_segmentation[OF h1 h2 h3, of "ustr ''Z''" confirmed] h1 h2 h3
  show ?thesis by blast
qed

subsection \<open>No segment intersects the token\<close>

lemma loop_before_state:
  "\<forall>g\<in>set pre. \<not> intersects tok (src_range g) \<and> snd (src_range g) < snd tok \<Longrightarrow>
   \<exists>st'. replace_loop src tok tr (Some dr) tag pre st = Inr st' \<and> offset_diff st' = offset_diff st"
  by (simp add: loop_before)

text \<open>
  Claim C8, as the code has it. The call has a draft and a non-empty meta, and no segment
  of the meta intersects the token offset. When every segment ends, on the source side,
  before the end of the token, \<open>replace_token\<close> returns without an error: the draft
  is rebuilt from the draft slices of the segments and the meta is returned as it came,
  so the edit is dropped. When some segment ends at or after the end of the token, the
  call fails, reading \<open>offset_diff\<close> that no segment has assigned.
\<close>

theorem replace_token_no_intersection:
  assumes ne: "meta \<noteq> []"
    and no: "\<forall>g\<in>set meta. \<not> intersects tok (src_range g)"
  shows "((\<forall>g\<in>set meta. snd (src_range g) < snd tok) \<longrightarrow>
            replace_token source tok translation (Some dr) (Some meta) tag =
              Inr (concat (map (dst_slice dr) meta), meta)) \<and>
         ((\<exists>g\<in>set meta. snd tok \<le> snd (src_range g)) \<longrightarrow>
            replace_token source tok translation (Some dr) (Some meta) tag =
              Inl UnboundLocalError)"
proof (intro conjI impI)
  assume all: "\<forall>g\<in>set meta. snd (src_range g) < snd tok"
  with no have "\<forall>g\<in>set meta. \<not> intersects tok (src_range g) \<and> snd (src_range g) < snd tok"
    by simp
  from loop_before[OF this, of source translation dr tag rt_init] ne
  show "replace_token source tok translation (Some dr) (Some meta) tag =
          Inr (concat (map (dst_slice dr) meta), meta)"
    by (simp add: replace_token_def rt_init_def entry_segment_Own)
next
  assume "\<exists>g\<in>set meta. snd tok \<le> snd (src_range g)"
  then have "\<exists>g\<in>set meta. \<not> snd (src_range g) < snd tok"
    by (meson not_less)
  then obtain pre g post where meta: "meta = pre @ g # post"
    and g: "\<not> snd (src_range g) < snd tok"
    and pre: "\<forall>h\<in>set pre. \<not> \<not> snd (src_range h) < snd tok"
    by (auto dest!: split_list_first_prop)
  from no pre have "\<forall>h\<in>set pre. \<not> intersects tok (src_range h) \<and> snd (src_range h) < snd tok"
    by (simp add: meta)
  from loop_before_state[OF this, of source translation dr tag rt_init]
  obtain st1 where run1: "replace_loop source tok translation (Some dr) tag pre rt_init = Inr st1"
    and od: "offset_diff st1 = None"
    by (auto simp: rt_init_def)
  from no have ng: "\<not> intersects tok (src_range g)" by (simp add: meta)
  have step: "replace_step source tok translation (Some dr) tag g st1 = Inl UnboundLocalError"
    using ng g od by (simp add: replace_step_def Let_def add_draft_def)
  have "replace_loop source tok translation (Some dr) tag meta rt_init = Inl UnboundLocalError"
    by (simp add: meta replace_loop_append run1 step)
  with ne show "replace_token source tok translation (Some dr) (Some meta) tag =
          Inl UnboundLocalError"
    by (simp add: replace_token_def)
qed

text \<open>
  The claim as stated fails: with the source \<open>"abc"\<close> under one segment and the token
  offset \<open>[5, 8]\<close>, no segment intersects the offset and the call returns the draft
  and the meta unchanged, with no error.
\<close>

theorem replace_token_no_intersection_counterexample:
  "\<not> intersects (5, 8) (src_range ((0, 3), (0, 3), untranslated)) \<and>
   replace_token (ustr ''abc'') (5, 8) (ustr ''X'') (Some (ustr ''abc''))
      (Some [((0, 3), (0, 3), untranslated)]) confirmed =
     Inr (ustr ''abc'', [((0, 3), (0, 3), untranslated)])"
  by (simp add: replace_token_def replace_step_def intersects_def src_range_def dst_range_def
      rt_init_def add_draft_def add_meta_def Let_def py_slice_def slice_index_def ustr_def)

text \<open>
  Both cases at \<open>"abc def"\<close> under two segments: the offset \<open>[9, 12]\<close> is dropped
  in silence, the empty offset \<open>[2, 2]\<close> fails.
\<close>

theorem replace_token_no_intersection_witness:
  "[((0, 3), (0, 3), untranslated), ((3, 7), (3, 7), confirmed)] \<noteq> ([] :: segment list) \<and>
   \<not> intersects (9, 12) (0, 3) \<and> \<not> intersects (9, 12) (3, 7) \<and>
   replace_token (ustr ''abc def'') (9, 12) (ustr ''X'') (Some (ustr ''abc DEF''))
      (Some [((0, 3), (0, 3), untranslated), ((3, 7), (3, 7), confirmed)]) confirmed =
     Inr (ustr ''abc DEF'', [((0, 3), (0, 3), untranslated), ((3, 7), (3, 7), confirmed)]) \<and>
   \<not> intersects (2, 2) (0, 3) \<and> \<not> intersects (2, 2) (3, 7) \<and>
   replace_token (ustr ''abc def'') (2, 2) (ustr ''X'') (Some (ustr ''abc DEF''))
      (Some [((0, 3), (0, 3), untranslated), ((3, 7), (3, 7), confirmed)]) confirmed =
     Inl UnboundLocalError"
proof -
  let ?M = "[((0, 3), (0, 3), untranslated), ((3, 7), (3, 7), confirmed)] :: segment list"
  have ne: "?M \<noteq> []" by simp
  have no1: "\<forall>g\<in>set ?M. \<not> intersects (9, 12) (src_range g)"
    by (simp add: intersects_def src_range_def)
  have no2: "\<forall>g\<in>set ?M. \<not> intersects (2, 2) (src_range g)"
    by (simp add: intersects_def src_range_def)
  have i1: "\<not> intersects (9, 12) (0, 3) \<and> \<not> intersects (9, 12) (3, 7)"
    and i2: "\<not> intersects (2, 2) (0, 3) \<and> \<not> intersects (2, 2) (3, 7)"
    by (simp_all add: intersects_def)
  have r1: "replace_token (ustr ''abc def'') (9, 12) (ustr ''X'') (Some (ustr ''abc DEF''))
      (Some ?M) confirmed = Inr (ustr ''abc DEF'', ?M)"
    using replace_token_no_intersection[OF ne no1, of "ustr ''abc def''" "ustr ''X''"
        "ustr ''abc DEF''" confirmed]
    by (simp add: src_range_def dst_slice_def dst_range_def py_slice_def slice_index_def ustr_def)
  have r2: "replace_token (ustr ''abc def'') (2, 2) (ustr ''X'') (Some (ustr ''abc DEF''))
      (Some ?M) confirmed = Inl UnboundLocalError"
    using replace_token_no_intersection[OF ne no2, of "ustr ''abc def''" "ustr ''X''"
        "ustr ''abc DEF''" confirmed]
    by (simp add: src_range_def)
  from ne i1 i2 r1 r2 show ?thesis by simp
qed


section \<open>Properties of the tokenizer\<close>

subsection \<open>Offsets cut the token out of its sentence\<close>

lemma find_in_sound:
  "find_in sub xs i = r \<Longrightarrow> r \<noteq> - 1 \<Longrightarrow>
     \<exists>k. r = int (i + k) \<and> take (length sub) (drop k xs) = sub \<and> k + length sub \<le> length xs"
proof (induction xs arbitrary: i)
  case Nil
  then show ?case by (auto split: if_splits)
next
  case (Cons c cs)
  show ?case
  proof (cases "take (length sub) (c # cs) = sub")
    case True
    then have "length (take (length sub) (c # cs)) = length sub" by simp
    then have "length sub \<le> length (c # cs)"
      by (simp add: min_def split: if_splits)
    with True Cons.prems show ?thesis by (intro exI[of _ 0]) simp
  next
    case False
    with Cons.prems have "find_in sub cs (Suc i) = r" by simp
    from Cons.IH[OF this Cons.prems(2)] obtain k where
      "r = int (Suc i + k)" "take (length sub) (drop k cs) = sub" "k + length sub \<le> length cs"
      by blast
    then show ?thesis by (intro exI[of _ "Suc k"]) simp
  qed
qed

lemma py_find_sound:
  assumes "py_find s sub start = off" and "off \<noteq> - 1"
  shows "0 \<le> off \<and> slice s off (off + int (length sub)) = sub"
proof -
  from assms have st: "start \<le> length s" and f: "find_in sub (drop start s) start = off"
    by (auto simp: py_find_def split: if_splits)
  from find_in_sound[OF f assms(2)] obtain k where k: "off = int (start + k)"
    "take (length sub) (drop k (drop start s)) = sub" "k + length sub \<le> length (drop start s)"
    by blast
  from k(3) st have le: "start + k + length sub \<le> length s" by simp
  have "slice s off (off + int (length sub)) =
          take (nat (off + int (length sub)) - nat off) (drop (nat off) s)"
    using le k(1) by (intro slice_within) simp_all
  also have "\<dots> = take (length sub) (drop (start + k) s)"
    using k(1) by (simp add: nat_add_distrib)
  also have "\<dots> = sub" using k(2) by (simp add: add.commute)
  finally show ?thesis using k(1) by simp
qed

lemma roundtrip_add_occurrence:
  assumes "roundtrip sents toks" and "sent \<in> set sents"
    and "slice (sentence sent) a b = phrase"
  shows "roundtrip sents (add_occurrence phrase (sentenceId sent, (a, b)) toks)"
  using assms(1)
proof (induction toks)
  case Nil
  with assms(2,3) show ?case by (auto simp: roundtrip_def)
next
  case (Cons p toks)
  obtain k info where p: "p = (k, info)" by (cases p)
  from Cons.prems have tl: "roundtrip sents toks" by (simp add: roundtrip_def)
  from Cons.prems have hd: "\<forall>(sid, off)\<in>set (occurrences info).
        \<exists>sent\<in>set sents. sentenceId sent = sid \<and> slice (sentence sent) (fst off) (snd off) = k"
    by (simp add: roundtrip_def p)
  show ?case
  proof (cases "k = phrase")
    case True
    with hd tl assms(2,3) show ?thesis by (auto simp: roundtrip_def p)
  next
    case False
    with hd Cons.IH[OF tl] show ?thesis by (simp add: roundtrip_def p)
  qed
qed

lemma record_phrases_roundtrip:
  "record_phrases sent isw swl phrases start toks = Inr toks' \<Longrightarrow> roundtrip sents toks \<Longrightarrow>
     sent \<in> set sents \<Longrightarrow> roundtrip sents toks'"
proof (induction phrases arbitrary: start toks)
  case Nil
  then show ?case by simp
next
  case (Cons phrase phrases)
  let ?off = "py_find (sentence sent) phrase start"
  show ?case
  proof (cases "py_strip phrase = [] \<or> (\<not> isw \<and> phrase \<in> set swl)")
    case True
    with Cons.prems(1) have "record_phrases sent isw swl phrases start toks = Inr toks'"
      by (auto split: if_splits)
    from Cons.IH[OF this Cons.prems(2,3)] show ?thesis .
  next
    case False
    with Cons.prems(1) have found: "?off \<noteq> - 1"
      and rest: "record_phrases sent isw swl phrases (nat (?off + 1))
                   (add_occurrence phrase (sentenceId sent, (?off, ?off + int (length phrase))) toks)
                 = Inr toks'"
      by (auto simp: Let_def split: if_splits)
    from py_find_sound[OF refl found]
    have "slice (sentence sent) ?off (?off + int (length phrase)) = phrase" by simp
    from roundtrip_add_occurrence[OF Cons.prems(2,3) this]
    have "roundtrip sents
            (add_occurrence phrase (sentenceId sent, (?off, ?off + int (length phrase))) toks)" .
    from Cons.IH[OF rest this Cons.prems(3)] show ?thesis .
  qed
qed

lemma tokenize_sentence_roundtrip:
  assumes "tokenize_sentence mt um ip isw puncts sw sent toks = Some (Inr toks')"
    and "roundtrip sents toks" and "sent \<in> set sents"
  shows "roundtrip sents toks'"
proof -
  from assms(1) obtain phrases where
    "record_phrases sent isw (prepositions sw @ postpositions sw) phrases 0 toks = Inr toks'"
    by (auto simp: tokenize_sentence_def Let_def split: if_splits option.splits)
  from record_phrases_roundtrip[OF this assms(2,3)] show ?thesis .
qed

lemma tokenize_loop_roundtrip:
  "tokenize_loop mt um ip isw puncts sw sents toks = Some (Inr toks') \<Longrightarrow>
     roundtrip every toks \<Longrightarrow> set sents \<subseteq> set every \<Longrightarrow> roundtrip every toks'"
proof (induction sents arbitrary: toks)
  case Nil
  then show ?case by simp
next
  case (Cons sent sents)
  from Cons.prems(1) obtain mid where
    one: "tokenize_sentence mt um ip isw puncts sw sent toks = Some (Inr mid)"
    and rest: "tokenize_loop mt um ip isw puncts sw sents mid = Some (Inr toks')"
    by (auto split: option.splits sum.splits)
  from Cons.prems(3) have "sent \<in> set every" "set sents \<subseteq> set every" by simp_all
  from tokenize_sentence_roundtrip[OF one Cons.prems(2) this(1)]
  have "roundtrip every mid" .
  from Cons.IH[OF rest this \<open>set sents \<subseteq> set every\<close>] show ?case .
qed

text \<open>
  Claim C7. Whenever \<open>tokenize\<close> returns a result (no exception, and the loop over the
  translation memory ends), every occurrence \<open>(sentenceId, [start, stop])\<close> recorded for
  a token names a sentence of the input whose slice from \<open>start\<close> to \<open>stop\<close> is the
  token itself.
\<close>

theorem tokenize_offsets_roundtrip:
  assumes "tokenize ev sent_list use_translation_memory include_phrases include_stopwords
             punctuations stop_words = Some (Inr toks)"
    and "(tok, info) \<in> set toks"
    and "(sid, (start, stop)) \<in> set (occurrences info)"
  shows "\<exists>sent\<in>set sent_list. sentenceId sent = sid \<and> slice (sentence sent) start stop = tok"
proof -
  have base: "roundtrip sent_list []" by (simp add: roundtrip_def)
  from assms(1) obtain mt puncts sw where
    run: "tokenize_loop mt use_translation_memory include_phrases include_stopwords puncts sw
            sent_list [] = Some (Inr toks)"
    by (simp add: tokenize_def Let_def)
  from tokenize_loop_roundtrip[OF run base subset_refl] have "roundtrip sent_list toks" .
  with assms(2,3) show ?thesis by (fastforce simp: roundtrip_def)
qed

text \<open>
  An instance with a translation memory, a stop word and a punctuation mark: the
  occurrence \<open>[13, 20]\<close> of \<open>"of life"\<close> in \<open>"life of joy, of life"\<close>.
\<close>

theorem tokenize_offsets_roundtrip_witness:
  "tokenize life_env [\<lparr>sentenceId = 7, sentence = ustr ''life of joy, of life''\<rparr>]
      True True False None None =
     Some (Inr
       [(ustr ''life'', \<lparr>occurrences = [(7, (0, 4))], token_translations = []\<rparr>),
        (ustr ''of joy'', \<lparr>occurrences = [(7, (5, 11))], token_translations = []\<rparr>),
        (ustr ''of life'', \<lparr>occurrences = [(7, (13, 20))], token_translations = []\<rparr>)]) \<and>
   (\<exists>sent\<in>set [\<lparr>sentenceId = 7, sentence = ustr ''life of joy, of life''\<rparr>].
      sentenceId sent = 7 \<and> slice (sentence sent) 13 20 = ustr ''of life'')"
proof -
  let ?S = "[\<lparr>sentenceId = 7, sentence = ustr ''life of joy, of life''\<rparr>]"
  let ?I = "\<lparr>occurrences = [(7, (13, 20))], token_translations = []\<rparr>"
  let ?T = "[(ustr ''life'', \<lparr>occurrences = [(7, (0, 4))], token_translations = []\<rparr>),
        (ustr ''of joy'', \<lparr>occurrences = [(7, (5, 11))], token_translations = []\<rparr>),
        (ustr ''of life'', ?I)]"
  have h1: "tokenize life_env ?S True True False None None = Some (Inr ?T)" by code_simp
  have h2: "(ustr ''of life'', ?I) \<in> set ?T" by simp
  have h3: "(7, (13, 20)) \<in> set (occurrences ?I)" by simp
  from tokenize_offsets_roundtrip[OF h1 h2 h3] h1 show ?thesis by simp
qed


subsection \<open>The fresh Hindi sentence\<close>

lemma re_split_class_no_match:
  "\<forall>c\<in>set s. \<not> P c \<Longrightarrow> re_split_class P in_match cur s = [cur @ s]"
  by (induction s arbitrary: in_match cur) simp_all

lemma jivan_no_newline: "re_sub_runs is_newline [SPACE] False jivan_sentence = jivan_sentence"
  by code_simp

lemma jivan_strip: "py_strip jivan_sentence = jivan_sentence"
  by code_simp

lemma jivan_phrases:
  "chunk_phrases jivan_stopwords True [jivan_sentence] [] =
     [w_jivan, ke_vachan_ko, w_dekho]"
  by code_simp

lemma jivan_record:
  "record_phrases \<lparr>sentenceId = sid, sentence = jivan_sentence\<rparr> False
      (prepositions jivan_stopwords @ postpositions jivan_stopwords)
      [w_jivan, ke_vachan_ko, w_dekho] 0 [] =
   Inr [(w_jivan, \<lparr>occurrences = [(sid, (0, 4))], token_translations = []\<rparr>),
        (ke_vachan_ko,
         \<lparr>occurrences = [(sid, (5, 14))], token_translations = []\<rparr>),
        (w_dekho, \<lparr>occurrences = [(sid, (15, 19))], token_translations = []\<rparr>)]"
  by code_simp

text \<open>
  Claim C4, as the code has it. With \<open>ke\<close> a preposition and \<open>ko\<close> a postposition, no
  translation memory, phrases built and stop words left out, the sentence \<open>jivan ke
  vachan ko dekho\<close> yields exactly three tokens: \<open>jivan\<close> at \<open>[0, 4]\<close>, \<open>ke vachan ko\<close>
  at \<open>[5, 14]\<close> and \<open>dekho\<close> at \<open>[15, 19]\<close>. A phrase is prepositions, one content word,
  postpositions: \<open>ke\<close> after the content word \<open>jivan\<close> ends that phrase and opens the
  next. This holds for every default punctuation that is not empty and has no character
  of the sentence.
\<close>

theorem tokenize_fresh_sentence:
  assumes "utils_punctuations ev \<noteq> []"
    and "\<forall>c\<in>set jivan_sentence. c \<notin> set (utils_punctuations ev)"
  shows "tokenize ev [\<lparr>sentenceId = sid, sentence = jivan_sentence\<rparr>] False True False None
           (Some jivan_stopwords) =
         Some (Inr
           [(w_jivan, \<lparr>occurrences = [(sid, (0, 4))], token_translations = []\<rparr>),
            (ke_vachan_ko,
             \<lparr>occurrences = [(sid, (5, 14))], token_translations = []\<rparr>),
            (w_dekho, \<lparr>occurrences = [(sid, (15, 19))], token_translations = []\<rparr>)])"
proof -
  have split: "re_split_class (\<lambda>c. c \<in> set (utils_punctuations ev)) False [] jivan_sentence
                 = [jivan_sentence]"
    using re_split_class_no_match[of jivan_sentence "\<lambda>c. c \<in> set (utils_punctuations ev)" False "[]"]
      assms(2) by simp
  show ?thesis
    using assms(1)
    by (simp add: tokenize_def tokenize_sentence_def Let_def jivan_no_newline split jivan_strip
        jivan_phrases jivan_record del: chunk_phrases.simps record_phrases.simps)
qed

text \<open>
  The instance with punctuation marks and digits as punctuation.
\<close>

theorem tokenize_fresh_sentence_witness:
  "utils_punctuations plain_env \<noteq> [] \<and>
   list_all (\<lambda>c. c \<notin> set (utils_punctuations plain_env)) jivan_sentence \<and>
   tokenize plain_env [\<lparr>sentenceId = 43001001, sentence = jivan_sentence\<rparr>] False True False None
     (Some jivan_stopwords) =
   Some (Inr
     [(w_jivan, \<lparr>occurrences = [(43001001, (0, 4))], token_translations = []\<rparr>),
      (ke_vachan_ko,
       \<lparr>occurrences = [(43001001, (5, 14))], token_translations = []\<rparr>),
      (w_dekho, \<lparr>occurrences = [(43001001, (15, 19))], token_translations = []\<rparr>)])"
proof -
  have h1: "utils_punctuations plain_env \<noteq> []" by code_simp
  have h2: "list_all (\<lambda>c. c \<notin> set (utils_punctuations plain_env)) jivan_sentence" by code_simp
  then have h2': "\<forall>c\<in>set jivan_sentence. c \<notin> set (utils_punctuations plain_env)"
    by (simp only: list_all_iff)
  from tokenize_fresh_sentence[OF h1 h2', of 43001001] h1 h2 show ?thesis by simp
qed

text \<open>
  The claim as stated fails: the tokens are the three above, not the two tokens \<open>jivan
  ke vachan ko\<close> and \<open>dekho\<close>.
\<close>

theorem tokenize_fresh_sentence_counterexample:
  "token_list (tokenize plain_env [\<lparr>sentenceId = 43001001, sentence = jivan_sentence\<rparr>]
      False True False None (Some jivan_stopwords)) =
     Some [w_jivan, ke_vachan_ko, w_dekho] \<and>
   token_list (tokenize plain_env [\<lparr>sentenceId = 43001001, sentence = jivan_sentence\<rparr>]
      False True False None (Some jivan_stopwords)) \<noteq>
     Some [jivan_ke_vachan_ko, w_dekho]"
  by code_simp


section \<open>Properties of the suggestion trie\<close>

text \<open>
  Claim C5. For the one sample (index 1, context \<open>["a", "b", "c"]\<close>, translation
  \<open>"B"\<close>), \<open>form_trie_keys\<close> in its longest-only mode gives exactly the keys
  \<open>b/L:a/R:c\<close> and \<open>b/R:c/L:a\<close>, and \<open>build_trie\<close> returns the trie whose items are
  exactly these two keys, each with the translation \<open>"B"\<close> at the weight 1/2 (one over
  the number of keys).
\<close>

theorem build_trie_single_sample:
  "form_trie_keys (ustr ''b'') [ustr ''a''] [ustr ''c''] [ustr ''b''] True =
     [ustr ''b/L:a/R:c'', ustr ''b/R:c/L:a''] \<and>
   build_trie [(TokenIndex 1, [ustr ''a'', ustr ''b'', ustr ''c''], ustr ''B'')] = Inr trained_trie \<and>
   trie_items trained_trie =
     [(ustr ''b/L:a/R:c'', [(ustr ''B'', 1 / 2)]), (ustr ''b/R:c/L:a'', [(ustr ''B'', 1 / 2)])]"
  by code_simp

text \<open>
  Claim C6, as the code has it. Against the trie trained on that sample, the lookup for
  index 1 in the same context returns exactly one candidate, \<open>"B"\<close>, with the score
  14/3: every key of the lookup adds the weights at and below it times the square of
  its own depth (1 + 2 + 2 + 9/2 + 9/2 = 14), and the sum is divided by the plain sum of
  these weights (1 + 1/2 + 1/2 + 1/2 + 1/2 = 3).
\<close>

theorem suggestion_single_sample:
  "build_trie [(TokenIndex 1, [ustr ''a'', ustr ''b'', ustr ''c''], ustr ''B'')] = Inr trained_trie \<and>
   get_translation_suggestion (TokenIndex 1) [ustr ''a'', ustr ''b'', ustr ''c''] trained_trie =
     Inr [(ustr ''B'', 14 / 3)]"
  by code_simp

text \<open>
  The claim as stated fails: the score of the lone candidate is not 1.
\<close>

theorem suggestion_single_sample_counterexample:
  "build_trie [(TokenIndex 1, [ustr ''a'', ustr ''b'', ustr ''c''], ustr ''B'')] = Inr trained_trie \<and>
   get_translation_suggestion (TokenIndex 1) [ustr ''a'', ustr ''b'', ustr ''c''] trained_trie \<noteq>
     Inr [(ustr ''B'', 1)]"
  by code_simp


section \<open>\<open>auto_translate\<close> and confirmed segments\<close>

text \<open>
  Claim C3 does not hold of the code. In \<open>"good word"\<close> the user has confirmed \<open>word\<close>
  as \<open>"Wort!"\<close>; the trie in memory suggests \<open>"WORT"\<close> for \<open>word\<close>. \<open>auto_translate\<close>
  replaces the confirmed segment: the draft becomes \<open>"good WORT"\<close> and the segment is
  tagged \<open>suggestion\<close>. And with no trie at all, a sentence \<open>"Amen"\<close> whose only token
  is confirmed with the empty translation has its draft reset to the source and its
  meta to one untranslated segment.
\<close>

theorem auto_translate_overwrites_confirmed:
  "auto_translate learnt_env
     [\<lparr>sentenceId = 1001001, sentence = ustr ''good word'', surrogateId = ustr ''gen,1,1'',
       draft = Some (ustr ''good Wort!''),
       draftMeta = Some [((0, 5), (0, 5), untranslated), ((5, 9), (5, 10), confirmed)]\<rparr>]
     (ustr ''en'') (ustr ''de'') None None =
   Some (Inr
     [\<lparr>sentenceId = 1001001, sentence = ustr ''good word'', surrogateId = ustr ''gen,1,1'',
       draft = Some (ustr ''good WORT''),
       draftMeta = Some [((0, 5), (0, 5), untranslated), ((5, 9), (5, 9), suggestion)]\<rparr>]) \<and>
   auto_translate plain_env
     [\<lparr>sentenceId = 1001001, sentence = ustr ''Amen'', surrogateId = ustr ''gen,1,1'',
       draft = Some [],
       draftMeta = Some [((0, 4), (0, 0), confirmed)]\<rparr>]
     (ustr ''en'') (ustr ''de'') None None =
   Some (Inr
     [\<lparr>sentenceId = 1001001, sentence = ustr ''Amen'', surrogateId = ustr ''gen,1,1'',
       draft = Some (ustr ''Amen''),
       draftMeta = Some [((0, 4), (0, 4), untranslated)]\<rparr>])"
  by code_simp


section \<open>Properties of the progress and of the export\<close>

text \<open>
  Claim C10. The project exists, every row has a draft-meta list, and every segment of
  every row has a source length of at most 1 (no rows and no segments included). Then
  all segments are skipped, the total is 0, and \<open>obtain_agmt_progress\<close> fails with a
  \<open>ZeroDivisionError\<close>.
\<close>

theorem progress_division_by_zero:
  assumes "\<forall>row\<in>set draft_rows. \<exists>segs. draftMeta row = Some segs \<and>
             (\<forall>seg\<in>set segs. snd (src_range seg) - fst (src_range seg) \<le> 1)"
  shows "obtain_agmt_progress (Some project_row) draft_rows = Inl ZeroDivisionError"
proof -
  have segs: "progress_segments segs acc = acc"
    if "\<forall>seg\<in>set segs. snd (src_range seg) - fst (src_range seg) \<le> 1" for segs acc
    using that by (induction segs acc rule: progress_segments.induct) (simp_all add: Let_def)
  have rows: "progress_rows draft_rows acc = Inr acc" for acc
    using assms by (induction draft_rows arbitrary: acc) (auto simp: segs)
  show ?thesis by (simp add: obtain_agmt_progress_def rows)
qed

text \<open>
  Two instances: no rows at all, and the row of \<open>"a b"\<close> with three segments of
  length 1.
\<close>

theorem progress_division_by_zero_witness:
  "obtain_agmt_progress (Some ()) [] = Inl ZeroDivisionError \<and>
   obtain_agmt_progress (Some ())
     [\<lparr>sentenceId = 1001001, sentence = ustr ''a b'', surrogateId = ustr ''gen,1,1'',
       draft = Some (ustr ''x b''),
       draftMeta = Some [((0, 1), (0, 1), confirmed), ((1, 2), (1, 2), untranslated),
                         ((2, 3), (2, 3), untranslated)]\<rparr>] = Inl ZeroDivisionError"
proof -
  have a: "obtain_agmt_progress (Some ()) [] = Inl ZeroDivisionError"
    using progress_division_by_zero[of "[]" "()"] by simp
  have b: "obtain_agmt_progress (Some ())
     [\<lparr>sentenceId = 1001001, sentence = ustr ''a b'', surrogateId = ustr ''gen,1,1'',
       draft = Some (ustr ''x b''),
       draftMeta = Some [((0, 1), (0, 1), confirmed), ((1, 2), (1, 2), untranslated),
                         ((2, 3), (2, 3), untranslated)]\<rparr>] = Inl ZeroDivisionError"
    by (rule progress_division_by_zero) (simp add: src_range_def)
  from a b show ?thesis by simp
qed

text \<open>
  Claim C9 does not hold of the code for confirmed segments. The alignment of a
  confirmed segment has the score 1, but no key \<open>verified\<close>: the value \<open>True\<close> is
  stored under the misspelt key \<open>verfied\<close>. A suggestion has the score 1/2 and an
  untranslated segment the score 0, both with \<open>verified\<close> false. The last equation is
  the whole export of one sentence \<open>"abc"\<close> with the confirmed draft \<open>"xyz"\<close>.
\<close>

theorem export_confirmed_alignment:
  "map_of (alignment i (src, dst, confirmed)) ''verified'' = None \<and>
   map_of (alignment i (src, dst, confirmed)) ''verfied'' = Some (JBool True) \<and>
   map_of (alignment i (src, dst, confirmed)) ''score'' = Some (JInt 1) \<and>
   map_of (alignment i (src, dst, suggestion)) ''verified'' = Some (JBool False) \<and>
   map_of (alignment i (src, dst, suggestion)) ''score'' = Some (JNum (1 / 2)) \<and>
   map_of (alignment i (src, dst, untranslated)) ''verified'' = Some (JBool False) \<and>
   map_of (alignment i (src, dst, untranslated)) ''score'' = Some (JInt 0) \<and>
   export_to_json (None :: unit option) None
     [\<lparr>sentenceId = 1001001, sentence = ustr ''abc'', surrogateId = ustr ''gen,1,1'',
       draft = Some (ustr ''xyz''), draftMeta = Some [((0, 3), (0, 3), confirmed)]\<rparr>] JNull =
   Inr (JObj
     [(''metadata'', JObj [(''resources'', JObj [(''r0'', JObj []), (''r1'', JObj [])]),
                           (''modified'', JNull)]),
      (''segments'', JArr
         [JObj
           [(''resources'', JObj
               [(''r0'', JObj [(''text'', JStr (ustr ''abc'')),
                               (''tokens'', JArr [JStr (ustr ''abc'')]),
                               (''metadata'', JObj [(''contextId'', JStr (ustr ''gen,1,1''))])]),
                (''r1'', JObj [(''text'', JStr (ustr ''xyz'')),
                               (''tokens'', JArr [JStr (ustr ''xyz'')]),
                               (''metadata'', JObj [(''contextId'', JStr (ustr ''gen,1,1''))])])]),
            (''alignments'', JArr
               [JObj [(''r0'', JArr [JInt 0]), (''r1'', JArr [JInt 0]),
                      (''status'', JStr confirmed), (''score'', JInt 1),
                      (''verfied'', JBool True)]])]])])"
  apply (intro conjI)
         apply (simp_all add: alignment_def status_def confirmed_def suggestion_def
      untranslated_def ustr_def)[7]
  apply code_simp
  done

end
